theory Spec2Isabelle
  imports Complex_Main "HOL-Library.Sublist"
begin

section \<open>JavaScript values\<close>

text \<open>
  A JavaScript \<^verbatim>\<open>number\<close> as it is read at run time. \<open>Some r\<close> is an ordinary number,
  idealised as a real; \<open>None\<close> stands for the values that every comparison rejects: NaN,
  and \<^verbatim>\<open>undefined\<close> where an array is read out of range.
\<close>

type_synonym number = "real option"

definition js_ge :: "number \<Rightarrow> number \<Rightarrow> bool" where
  "js_ge a b = (case (a, b) of (Some u, Some v) \<Rightarrow> u \<ge> v | _ \<Rightarrow> False)"

definition js_le :: "number \<Rightarrow> number \<Rightarrow> bool" where
  "js_le a b = (case (a, b) of (Some u, Some v) \<Rightarrow> u \<le> v | _ \<Rightarrow> False)"

definition js_lt :: "number \<Rightarrow> number \<Rightarrow> bool" where
  "js_lt a b = (case (a, b) of (Some u, Some v) \<Rightarrow> u < v | _ \<Rightarrow> False)"

definition js_add :: "number \<Rightarrow> number \<Rightarrow> number" where
  "js_add a b = (case (a, b) of (Some u, Some v) \<Rightarrow> Some (u + v) | _ \<Rightarrow> None)"

definition js_sub :: "number \<Rightarrow> number \<Rightarrow> number" where
  "js_sub a b = (case (a, b) of (Some u, Some v) \<Rightarrow> Some (u - v) | _ \<Rightarrow> None)"

definition js_mul :: "number \<Rightarrow> number \<Rightarrow> number" where
  "js_mul a b = (case (a, b) of (Some u, Some v) \<Rightarrow> Some (u * v) | _ \<Rightarrow> None)"

text \<open>\<^verbatim>\<open>xs[i]\<close>: reading an array out of range gives \<^verbatim>\<open>undefined\<close>.\<close>

definition js_index :: "'a list \<Rightarrow> nat \<Rightarrow> 'a option" where
  "js_index xs i = (if i < length xs then Some (xs ! i) else None)"

text \<open>\<^verbatim>\<open>xs.slice(0, n)\<close> is \<open>take n xs\<close>; \<^verbatim>\<open>xs.slice(-n)\<close> keeps the last \<open>n\<close> elements.\<close>

definition slice_last :: "nat \<Rightarrow> 'a list \<Rightarrow> 'a list" where
  "slice_last n xs = drop (length xs - n) xs"


section \<open>Types (types/index.ts, store/dashboardStore.ts)\<close>

record ClassWeight =
  w_tg :: real
  w_bw :: real
  w_bg :: real

text \<open>\<^verbatim>\<open>Partial<ClassWeight>\<close>: every field may be absent.\<close>

record PartialClassWeight =
  p_w_tg :: "real option"
  p_w_bw :: "real option"
  p_w_bg :: "real option"

text \<open>The fields \<^verbatim>\<open>rack\<close>, \<^verbatim>\<open>variable\<close> and \<^verbatim>\<open>mean_diff\<close> of StatisticalResult carry the
  prefix \<open>sr_\<close>: FeatureImportance has fields of the same names.\<close>

record StatisticalResult =
  sr_rack :: string
  sr_variable :: string
  direction :: string
  sr_mean_diff :: real
  p_value :: number
  cohen_d :: real
  significance :: string
  effect_size :: string

record FeatureImportance =
  rank :: int
  rack :: string
  variable :: string
  score :: real
  importance :: real
  cluster1_data :: "real list"
  cluster2_data :: "real list"
  cluster1_time :: "string list"
  cluster2_time :: "string list"
  mean_diff :: real
  statistical_result :: StatisticalResult

record Colors =
  class_colors :: "string list"
  colors_cluster1 :: string
  colors_cluster2 :: string

record ConfigResponse =
  variables :: "string list"
  n_classes :: nat
  grid_shape :: "nat list"
  colors :: Colors

record EmbeddingPoint =
  x :: number
  y :: number
  index :: nat
  label :: "int option"

text \<open>\<^verbatim>\<open>number[] | null\<close>: \<open>None\<close> is \<^verbatim>\<open>null\<close>, the unset slot.\<close>

record ClusterSelection =
  cluster1 :: "nat list option"
  cluster2 :: "nat list option"

text \<open>The field \<^verbatim>\<open>text\<close> is written \<open>text'\<close>, and \<^verbatim>\<open>interpretation\<close> and \<^verbatim>\<open>id\<close> below
  \<open>interpretation'\<close> and \<open>id'\<close>.\<close>

record InterpretationSection =
  title :: string
  text' :: string
  highlights :: "string list"

record Summary =
  significant_count :: nat
  top_variables :: "string list"
  top_racks :: "string list"

record SavedAnalysis =
  id' :: string
  timestamp :: nat
  cluster1_indices :: "nat list"
  cluster2_indices :: "nat list"
  cluster1_size :: nat
  cluster2_size :: nat
  top_features :: "FeatureImportance list"
  interpretation' :: "InterpretationSection list"
  summary :: Summary

datatype activeTab = ranking | heatmap

datatype interpretationTab = summary_tab | history_tab | compare_tab

record DashboardState =
  config :: "ConfigResponse option"
  classWeights :: "ClassWeight list"
  selectedClass :: int
  embeddingData :: "EmbeddingPoint list"
  scaledData :: "real list list option"
  Ms :: "real list list option"
  Mv :: "real list list option"
  clusters :: ClusterSelection
  topFeatures :: "FeatureImportance list option"
  contributionMatrix :: "real list list option"
  interpretation' :: "InterpretationSection list option"
  analysisHistory :: "SavedAnalysis list"
  selectedHistoryIds :: "string list"
  currentFeatureIndex :: int
  activeTab :: activeTab
  selectedVariable :: int
  interpretationTab :: interpretationTab
  isLoading :: bool


section \<open>The store (store/dashboardStore.ts)\<close>

definition MAX_HISTORY_SIZE :: nat where
  "MAX_HISTORY_SIZE = 10"

text \<open>The state the store is created with.\<close>

definition initialState :: DashboardState where
  "initialState = \<lparr>
     config = None,
     classWeights = [],
     selectedClass = 0,
     embeddingData = [],
     scaledData = None,
     Ms = None,
     Mv = None,
     clusters = \<lparr>cluster1 = None, cluster2 = None\<rparr>,
     topFeatures = None,
     contributionMatrix = None,
     interpretation' = None,
     analysisHistory = [],
     selectedHistoryIds = [],
     currentFeatureIndex = 0,
     activeTab = ranking,
     selectedVariable = 0,
     interpretationTab = summary_tab,
     isLoading = False\<rparr>"

definition setConfig :: "ConfigResponse \<Rightarrow> DashboardState \<Rightarrow> DashboardState" where
  "setConfig c st = st\<lparr>config := Some c\<rparr>"

definition setSelectedClass :: "int \<Rightarrow> DashboardState \<Rightarrow> DashboardState" where
  "setSelectedClass c st = st\<lparr>selectedClass := c\<rparr>"

text \<open>\<^verbatim>\<open>{ ...w, ...weight }\<close>: the fields present in the partial weight replace those of \<open>w\<close>.\<close>

definition mergeWeight :: "ClassWeight \<Rightarrow> PartialClassWeight \<Rightarrow> ClassWeight" where
  "mergeWeight w p = \<lparr>
     w_tg = (case p_w_tg p of None \<Rightarrow> w_tg w | Some v \<Rightarrow> v),
     w_bw = (case p_w_bw p of None \<Rightarrow> w_bw w | Some v \<Rightarrow> v),
     w_bg = (case p_w_bg p of None \<Rightarrow> w_bg w | Some v \<Rightarrow> v)\<rparr>"

definition updateWeight :: "int \<Rightarrow> PartialClassWeight \<Rightarrow> DashboardState \<Rightarrow> DashboardState" where
  "updateWeight classIndex weight st =
     st\<lparr>classWeights :=
          map (\<lambda>(w, i). if int i = classIndex then mergeWeight w weight else w)
              (zip (classWeights st) [0 ..< length (classWeights st)])\<rparr>"

definition initializeWeights :: "nat \<Rightarrow> DashboardState \<Rightarrow> DashboardState" where
  "initializeWeights nClasses st =
     st\<lparr>classWeights := replicate nClasses \<lparr>w_tg = 0, w_bw = 1.0, w_bg = 1.0\<rparr>\<rparr>"

text \<open>
  \<^verbatim>\<open>embedding.map((point, index) => ({x: point[0], y: point[1], index, label: labels[index]}))\<close>:
  the callback's second argument is the position in \<^verbatim>\<open>embedding\<close>.
\<close>

definition toPoint :: "int list \<Rightarrow> real list \<times> nat \<Rightarrow> EmbeddingPoint" where
  "toPoint labels entry =
     (case entry of (point, i) \<Rightarrow>
        \<lparr>x = js_index point 0, y = js_index point 1, index = i, label = js_index labels i\<rparr>)"

definition setEmbeddingData ::
  "real list list \<Rightarrow> int list \<Rightarrow> real list list \<Rightarrow> real list list \<Rightarrow> real list list \<Rightarrow>
   DashboardState \<Rightarrow> DashboardState" where
  "setEmbeddingData embedding labels scaled ms mv st =
     st\<lparr>embeddingData := map (toPoint labels) (zip embedding [0 ..< length embedding]),
        scaledData := Some scaled,
        Ms := Some ms,
        Mv := Some mv,
        analysisHistory := [],
        selectedHistoryIds := []\<rparr>"

definition selectCluster1 :: "nat list \<Rightarrow> DashboardState \<Rightarrow> DashboardState" where
  "selectCluster1 indices st = st\<lparr>clusters := \<lparr>cluster1 = Some indices, cluster2 = None\<rparr>\<rparr>"

definition selectCluster2 :: "nat list \<Rightarrow> DashboardState \<Rightarrow> DashboardState" where
  "selectCluster2 indices st = st\<lparr>clusters := (clusters st)\<lparr>cluster2 := Some indices\<rparr>\<rparr>"

text \<open>
  Modelled from the spec: \<^verbatim>\<open>clearCluster1\<close> and \<^verbatim>\<open>clearCluster2\<close>. The sidebar
  (components/Sidebar.tsx) takes both from the store and binds them to the two clear
  buttons, but the store file at hand does not define them. Section 4.3 of the
  specification: "clearCluster1 (unset cluster1 only - leaves cluster2 as-is even though
  this can produce a state where cluster2 is set while cluster1 is not, which is reachable
  and must be tolerated, not treated as invalid), clearCluster2 (unset cluster2 only)".
\<close>

definition clearCluster1 :: "DashboardState \<Rightarrow> DashboardState" where
  "clearCluster1 st = st\<lparr>clusters := (clusters st)\<lparr>cluster1 := None\<rparr>\<rparr>"

definition clearCluster2 :: "DashboardState \<Rightarrow> DashboardState" where
  "clearCluster2 st = st\<lparr>clusters := (clusters st)\<lparr>cluster2 := None\<rparr>\<rparr>"

definition resetClusters :: "DashboardState \<Rightarrow> DashboardState" where
  "resetClusters st =
     st\<lparr>clusters := \<lparr>cluster1 = None, cluster2 = None\<rparr>,
        topFeatures := None,
        contributionMatrix := None,
        interpretation' := None\<rparr>"

definition setAnalysisResults ::
  "FeatureImportance list \<Rightarrow> real list list \<Rightarrow> DashboardState \<Rightarrow> DashboardState" where
  "setAnalysisResults features matrix st =
     st\<lparr>topFeatures := Some features, contributionMatrix := Some matrix\<rparr>"

definition setInterpretation :: "InterpretationSection list \<Rightarrow> DashboardState \<Rightarrow> DashboardState" where
  "setInterpretation sections st = st\<lparr>interpretation' := Some sections\<rparr>"


subsection \<open>The summary of a saved analysis\<close>

text \<open>\<^verbatim>\<open>state.topFeatures.filter(f => f.statistical_result.p_value < 0.05)\<close>\<close>

definition significantFeatures :: "FeatureImportance list \<Rightarrow> FeatureImportance list" where
  "significantFeatures features =
     filter (\<lambda>f. js_lt (p_value (statistical_result f)) (Some 0.05)) features"

text \<open>
  The accumulator \<^verbatim>\<open>{} as Record<string, number>\<close> of the reduce is an object: its own
  properties are kept here as a list of (key, value) pairs in the order in which they were
  created. Writing an existing property keeps its place; writing a new one adds it last.
\<close>

fun setProperty :: "(string \<times> 'v) list \<Rightarrow> string \<Rightarrow> 'v \<Rightarrow> (string \<times> 'v) list" where
  "setProperty [] k v = [(k, v)]"
| "setProperty ((k', v') # ps) k v =
     (if k' = k then (k', v) # ps else (k', v') # setProperty ps k v)"

text \<open>
  The names every object inherits from \<^verbatim>\<open>Object.prototype\<close>. For such a name
  \<^verbatim>\<open>acc[name] || 0\<close> reads the inherited member, not a count, so the tally below
  describes the code only for variable names outside this list.
\<close>

definition objectPrototypeNames :: "string list" where
  "objectPrototypeNames =
     [''constructor'', ''__proto__'', ''hasOwnProperty'', ''isPrototypeOf'',
      ''propertyIsEnumerable'', ''toLocaleString'', ''toString'', ''valueOf'',
      ''__defineGetter__'', ''__defineSetter__'', ''__lookupGetter__'', ''__lookupSetter__'']"

text \<open>\<^verbatim>\<open>acc[f.variable] = (acc[f.variable] || 0) + 1; return acc;\<close>\<close>

definition countVariable :: "(string \<times> nat) list \<Rightarrow> FeatureImportance \<Rightarrow> (string \<times> nat) list" where
  "countVariable acc f =
     setProperty acc (variable f) ((case map_of acc (variable f) of None \<Rightarrow> 0 | Some c \<Rightarrow> c) + 1)"

definition variableCounts :: "FeatureImportance list \<Rightarrow> (string \<times> nat) list" where
  "variableCounts features = foldl countVariable [] features"

text \<open>
  \<^verbatim>\<open>Object.entries\<close> lists the own properties in the order of the language: first the keys
  that are array indices (the canonical decimal form of an integer from 0 to 2^32 - 2), in
  ascending numeric order, then every other string key in the order of creation.
\<close>

definition isDigit :: "char \<Rightarrow> bool" where
  "isDigit c = (48 \<le> (of_char c :: nat) \<and> (of_char c :: nat) \<le> 57)"

definition decimalValue :: "string \<Rightarrow> nat" where
  "decimalValue s = foldl (\<lambda>n c. 10 * n + (of_char c - 48)) 0 s"

definition isArrayIndex :: "string \<Rightarrow> bool" where
  "isArrayIndex s =
     (s \<noteq> [] \<and> list_all isDigit s \<and> (s = ''0'' \<or> hd s \<noteq> CHR ''0'') \<and>
      decimalValue s < 4294967295)"

definition objectEntries :: "(string \<times> 'v) list \<Rightarrow> (string \<times> 'v) list" where
  "objectEntries obj =
     sort_key (\<lambda>p. decimalValue (fst p)) (filter (\<lambda>p. isArrayIndex (fst p)) obj) @
     filter (\<lambda>p. \<not> isArrayIndex (fst p)) obj"

text \<open>
  \<^verbatim>\<open>Object.entries(variableCounts).sort((a, b) => b[1] - a[1]).map(([v]) => v)\<close>.
  \<^verbatim>\<open>Array.prototype.sort\<close> is stable; so is \<open>sort_key\<close>, here on the negated count.
\<close>

definition sortedVars :: "FeatureImportance list \<Rightarrow> string list" where
  "sortedVars features =
     map fst (sort_key (\<lambda>p. - int (snd p)) (objectEntries (variableCounts features)))"

text \<open>\<^verbatim>\<open>state.topFeatures.slice(0, 5).map(f => f.rack)\<close>\<close>

definition racks :: "FeatureImportance list \<Rightarrow> string list" where
  "racks features = map rack (take 5 features)"

text \<open>
  The snapshot. Its id, \<^verbatim>\<open>`${Date.now()}-${Math.random().toString(36).substr(2, 9)}`\<close>,
  and its timestamp, \<^verbatim>\<open>new Date()\<close>, come from the clock and the random generator: they
  are inputs of the model.
\<close>

definition newAnalysis ::
  "string \<Rightarrow> nat \<Rightarrow> nat list \<Rightarrow> nat list \<Rightarrow> FeatureImportance list \<Rightarrow>
   InterpretationSection list \<Rightarrow> SavedAnalysis" where
  "newAnalysis newId now c1 c2 features sections = \<lparr>
     id' = newId,
     timestamp = now,
     cluster1_indices = c1,
     cluster2_indices = c2,
     cluster1_size = length c1,
     cluster2_size = length c2,
     top_features = features,
     interpretation' = sections,
     summary = \<lparr>
       significant_count = length (significantFeatures features),
       top_variables = take 3 (sortedVars features),
       top_racks = racks features\<rparr>\<rparr>"

text \<open>
  \<^verbatim>\<open>if (!state.clusters.cluster1 || !state.clusters.cluster2 || !state.topFeatures ||
  !state.interpretation) return;\<close> An array, also an empty one, is truthy: only
  \<^verbatim>\<open>null\<close> takes the early return.
\<close>

definition saveCurrentAnalysis :: "string \<Rightarrow> nat \<Rightarrow> DashboardState \<Rightarrow> DashboardState" where
  "saveCurrentAnalysis newId now st =
     (case (cluster1 (clusters st), cluster2 (clusters st), topFeatures st,
            DashboardState.interpretation' st) of
        (Some c1, Some c2, Some features, Some sections) \<Rightarrow>
          (let newHistory = newAnalysis newId now c1 c2 features sections # analysisHistory st
           in st\<lparr>analysisHistory := take MAX_HISTORY_SIZE newHistory\<rparr>)
      | _ \<Rightarrow> st)"

definition clearHistory :: "DashboardState \<Rightarrow> DashboardState" where
  "clearHistory st = st\<lparr>analysisHistory := [], selectedHistoryIds := []\<rparr>"

definition toggleHistorySelection :: "string \<Rightarrow> DashboardState \<Rightarrow> DashboardState" where
  "toggleHistorySelection i st =
     (let isSelected = (i \<in> set (selectedHistoryIds st)) in
      if isSelected
      then st\<lparr>selectedHistoryIds := filter (\<lambda>hid. hid \<noteq> i) (selectedHistoryIds st)\<rparr>
      else st\<lparr>selectedHistoryIds := slice_last 2 (selectedHistoryIds st @ [i])\<rparr>)"

definition clearHistorySelection :: "DashboardState \<Rightarrow> DashboardState" where
  "clearHistorySelection st = st\<lparr>selectedHistoryIds := []\<rparr>"

definition setCurrentFeatureIndex :: "int \<Rightarrow> DashboardState \<Rightarrow> DashboardState" where
  "setCurrentFeatureIndex i st = st\<lparr>currentFeatureIndex := i\<rparr>"

definition setActiveTab :: "activeTab \<Rightarrow> DashboardState \<Rightarrow> DashboardState" where
  "setActiveTab t st = st\<lparr>activeTab := t\<rparr>"

definition setSelectedVariable :: "int \<Rightarrow> DashboardState \<Rightarrow> DashboardState" where
  "setSelectedVariable v st = st\<lparr>selectedVariable := v\<rparr>"

definition setInterpretationTab :: "interpretationTab \<Rightarrow> DashboardState \<Rightarrow> DashboardState" where
  "setInterpretationTab t st = st\<lparr>interpretationTab := t\<rparr>"

definition setIsLoading :: "bool \<Rightarrow> DashboardState \<Rightarrow> DashboardState" where
  "setIsLoading b st = st\<lparr>isLoading := b\<rparr>"


section \<open>The brush selection (components/ScatterPlot.tsx)\<close>

text \<open>
  The two functions of the d3 library that \<^verbatim>\<open>handleBrushEnd\<close> calls are parameters:
  \<open>extent\<close> gives the least and the greatest value of a collection, and
  \<open>scaleLinear domain range\<close> is the scale built by
  \<^verbatim>\<open>d3.scaleLinear().domain(domain).range(range)\<close>.
\<close>

record d3 =
  extent :: "number list \<Rightarrow> number \<times> number"
  scaleLinear :: "number \<times> number \<Rightarrow> number \<times> number \<Rightarrow> number \<Rightarrow> number"

text \<open>\<^verbatim>\<open>event.selection as [[x0, y0], [x1, y1]]\<close>\<close>

type_synonym brushSelection = "(number \<times> number) \<times> (number \<times> number)"

text \<open>"Calculate scale from fresh data extent": the x scale.\<close>

definition xScale :: "d3 \<Rightarrow> number \<Rightarrow> EmbeddingPoint list \<Rightarrow> number \<Rightarrow> number" where
  "xScale lib innerWidth pts =
     (let xExtent = extent lib (map x pts);
          xRange = js_sub (snd xExtent) (fst xExtent);
          xPadding = js_mul xRange (Some 0.15)
      in scaleLinear lib (js_sub (fst xExtent) xPadding, js_add (snd xExtent) xPadding)
           (Some 0, innerWidth))"

text \<open>The y scale: its range is \<^verbatim>\<open>[innerHeight, 0]\<close>.\<close>

definition yScale :: "d3 \<Rightarrow> number \<Rightarrow> EmbeddingPoint list \<Rightarrow> number \<Rightarrow> number" where
  "yScale lib innerHeight pts =
     (let yExtent = extent lib (map y pts);
          yRange = js_sub (snd yExtent) (fst yExtent);
          yPadding = js_mul yRange (Some 0.15)
      in scaleLinear lib (js_sub (fst yExtent) yPadding, js_add (snd yExtent) yPadding)
           (innerHeight, Some 0))"

text \<open>\<^verbatim>\<open>clusters.cluster1 || []\<close>\<close>

definition orEmpty :: "'a list option \<Rightarrow> 'a list" where
  "orEmpty c = (case c of None \<Rightarrow> [] | Some xs \<Rightarrow> xs)"

text \<open>The callback of \<^verbatim>\<open>embeddingData.filter\<close>.\<close>

definition brushFilter ::
  "d3 \<Rightarrow> number \<Rightarrow> number \<Rightarrow> brushSelection \<Rightarrow> DashboardState \<Rightarrow> EmbeddingPoint \<Rightarrow> bool" where
  "brushFilter lib innerWidth innerHeight sel st d =
     (case sel of ((x0, y0), (x1, y1)) \<Rightarrow>
        (let cluster1Set = set (orEmpty (cluster1 (clusters st)));
             cluster2Set = set (orEmpty (cluster2 (clusters st)))
         in if index d \<in> cluster1Set \<or> index d \<in> cluster2Set then False
            else (let px = xScale lib innerWidth (embeddingData st) (x d);
                      py = yScale lib innerHeight (embeddingData st) (y d)
                  in js_ge px x0 \<and> js_le px x1 \<and> js_ge py y0 \<and> js_le py y1)))"

definition selectedIndices ::
  "d3 \<Rightarrow> number \<Rightarrow> number \<Rightarrow> brushSelection \<Rightarrow> DashboardState \<Rightarrow> nat list" where
  "selectedIndices lib innerWidth innerHeight sel st =
     map index (filter (brushFilter lib innerWidth innerHeight sel st) (embeddingData st))"

text \<open>
  \<^verbatim>\<open>handleBrushEnd\<close>, on the state of the store: \<^verbatim>\<open>embeddingData\<close> and \<^verbatim>\<open>clusters\<close>
  are the values of the current render. \<open>None\<close> is the \<^verbatim>\<open>null\<close> selection of an event
  that ends with no rectangle.
\<close>

definition handleBrushEnd ::
  "d3 \<Rightarrow> number \<Rightarrow> number \<Rightarrow> brushSelection option \<Rightarrow> DashboardState \<Rightarrow> DashboardState" where
  "handleBrushEnd lib innerWidth innerHeight selection st =
     (case selection of
        None \<Rightarrow> st
      | Some sel \<Rightarrow>
          if embeddingData st = [] then st
          else (let selected = selectedIndices lib innerWidth innerHeight sel st in
                if selected = [] then st
                else if cluster1 (clusters st) = None then selectCluster1 selected st
                else if cluster2 (clusters st) = None then selectCluster2 selected st
                else selectCluster1 selected st))"


section \<open>Runs of the application\<close>

text \<open>The operations of the store, and the one caller of the two cluster setters.\<close>

datatype event =
    SetConfig ConfigResponse
  | SetSelectedClass int
  | UpdateWeight int PartialClassWeight
  | InitializeWeights nat
  | SetEmbeddingData "real list list" "int list" "real list list" "real list list" "real list list"
  | SelectCluster1 "nat list"
  | SelectCluster2 "nat list"
  | ClearCluster1
  | ClearCluster2
  | ResetClusters
  | SetAnalysisResults "FeatureImportance list" "real list list"
  | SetInterpretation "InterpretationSection list"
  | SaveCurrentAnalysis string nat
  | ClearHistory
  | ToggleHistorySelection string
  | ClearHistorySelection
  | SetCurrentFeatureIndex int
  | SetActiveTab activeTab
  | SetSelectedVariable int
  | SetInterpretationTab interpretationTab
  | SetIsLoading bool
  | BrushEnd number number "brushSelection option"

fun apply_event :: "d3 \<Rightarrow> event \<Rightarrow> DashboardState \<Rightarrow> DashboardState" where
  "apply_event lib (SetConfig c) st = setConfig c st"
| "apply_event lib (SetSelectedClass c) st = setSelectedClass c st"
| "apply_event lib (UpdateWeight i w) st = updateWeight i w st"
| "apply_event lib (InitializeWeights n) st = initializeWeights n st"
| "apply_event lib (SetEmbeddingData e l s ms mv) st = setEmbeddingData e l s ms mv st"
| "apply_event lib (SelectCluster1 s) st = selectCluster1 s st"
| "apply_event lib (SelectCluster2 s) st = selectCluster2 s st"
| "apply_event lib ClearCluster1 st = clearCluster1 st"
| "apply_event lib ClearCluster2 st = clearCluster2 st"
| "apply_event lib ResetClusters st = resetClusters st"
| "apply_event lib (SetAnalysisResults f m) st = setAnalysisResults f m st"
| "apply_event lib (SetInterpretation s) st = setInterpretation s st"
| "apply_event lib (SaveCurrentAnalysis i t) st = saveCurrentAnalysis i t st"
| "apply_event lib ClearHistory st = clearHistory st"
| "apply_event lib (ToggleHistorySelection i) st = toggleHistorySelection i st"
| "apply_event lib ClearHistorySelection st = clearHistorySelection st"
| "apply_event lib (SetCurrentFeatureIndex i) st = setCurrentFeatureIndex i st"
| "apply_event lib (SetActiveTab t) st = setActiveTab t st"
| "apply_event lib (SetSelectedVariable v) st = setSelectedVariable v st"
| "apply_event lib (SetInterpretationTab t) st = setInterpretationTab t st"
| "apply_event lib (SetIsLoading b) st = setIsLoading b st"
| "apply_event lib (BrushEnd w h sel) st = handleBrushEnd lib w h sel st"

text \<open>
  The states a run reaches from the initial state. \<open>allowed st e\<close> says which events the
  run may make in which state.
\<close>

inductive reachable :: "d3 \<Rightarrow> (DashboardState \<Rightarrow> event \<Rightarrow> bool) \<Rightarrow> DashboardState \<Rightarrow> bool"
  for lib :: d3 and allowed :: "DashboardState \<Rightarrow> event \<Rightarrow> bool" where
  reachable_init: "reachable lib allowed initialState"
| reachable_step:
    "reachable lib allowed st \<Longrightarrow> allowed st e \<Longrightarrow> reachable lib allowed (apply_event lib e st)"

text \<open>Every event of a list is allowed in the state in which the run makes it.\<close>

fun allowedRun ::
  "d3 \<Rightarrow> (DashboardState \<Rightarrow> event \<Rightarrow> bool) \<Rightarrow> event list \<Rightarrow> DashboardState \<Rightarrow> bool" where
  "allowedRun lib allowed [] st = True"
| "allowedRun lib allowed (e # es) st =
     (allowed st e \<and> allowedRun lib allowed es (apply_event lib e st))"

text \<open>Every event is allowed in every state.\<close>

definition anyEvent :: "DashboardState \<Rightarrow> event \<Rightarrow> bool" where
  "anyEvent st e = True"

text \<open>A run of a list of events, first event first.\<close>

definition run :: "d3 \<Rightarrow> event list \<Rightarrow> DashboardState \<Rightarrow> DashboardState" where
  "run lib es st = foldl (\<lambda>s e. apply_event lib e s) st es"


section \<open>Properties of states, and the specification's wording\<close>

text \<open>The two clusters share no index; an unset slot holds none.\<close>

definition disjointClusters :: "ClusterSelection \<Rightarrow> bool" where
  "disjointClusters c = (set (orEmpty (cluster1 c)) \<inter> set (orEmpty (cluster2 c)) = {})"

text \<open>
  \<^verbatim>\<open>handleBrushEnd\<close> passes to \<^verbatim>\<open>selectCluster2\<close> only indices that it has filtered
  against cluster1. A run in which every direct call of \<^verbatim>\<open>selectCluster2\<close> does the same:
\<close>

definition select2Disjoint :: "DashboardState \<Rightarrow> event \<Rightarrow> bool" where
  "select2Disjoint st e =
     (case e of
        SelectCluster2 s \<Rightarrow> set s \<inter> set (orEmpty (cluster1 (clusters st))) = {}
      | _ \<Rightarrow> True)"

text \<open>
  \<^verbatim>\<open>handleBrushEnd\<close> calls \<^verbatim>\<open>selectCluster2\<close> only when cluster1 is set. A run in which
  every direct call of \<^verbatim>\<open>selectCluster2\<close> does the same, and in which \<^verbatim>\<open>clearCluster1\<close>
  is called only while cluster2 is unset:
\<close>

definition cluster1First :: "DashboardState \<Rightarrow> event \<Rightarrow> bool" where
  "cluster1First st e =
     (case e of
        SelectCluster2 s \<Rightarrow> cluster1 (clusters st) \<noteq> None
      | ClearCluster1 \<Rightarrow> cluster2 (clusters st) = None
      | _ \<Rightarrow> True)"

text \<open>The three states of the two slots (section 4.3 of the specification).\<close>

datatype slots = Empty | OneFilled | BothFilled

definition slotsOf :: "ClusterSelection \<Rightarrow> slots" where
  "slotsOf c =
     (case (cluster1 c, cluster2 c) of
        (None, None) \<Rightarrow> Empty
      | (Some a, Some b) \<Rightarrow> BothFilled
      | _ \<Rightarrow> OneFilled)"

text \<open>The distinct elements of a list in the order of their first occurrence.\<close>

fun firstSeen :: "'a list \<Rightarrow> 'a list" where
  "firstSeen [] = []"
| "firstSeen (v # vs) = v # filter (\<lambda>u. u \<noteq> v) (firstSeen vs)"

text \<open>
  The specification's \<open>top_variables\<close>: "variable names ranked by descending occurrence
  frequency among all topFeatures, ties broken by first-seen order, truncated to 3".
\<close>

definition spec_top_variables :: "FeatureImportance list \<Rightarrow> string list" where
  "spec_top_variables features =
     (let names = map variable features
      in take 3 (sort_key (\<lambda>v. - int (count_list names v)) (firstSeen names)))"

text \<open>A variable name for which the tally of \<open>countVariable\<close> and the creation order of
  \<open>objectEntries\<close> are those of a plain dictionary.\<close>

definition ordinaryName :: "string \<Rightarrow> bool" where
  "ordinaryName v = (\<not> isArrayIndex v \<and> v \<notin> set objectPrototypeNames)"


section \<open>Concrete inputs\<close>

text \<open>
  A d3 for the examples below. The d3 library is not part of the repository; these two
  functions follow its documented behaviour and section 4.1 of the specification: the
  extent is [min, max] of the defined values, and the scale is the linear mapping of the
  domain onto the range (a domain of width 0 is mapped to the middle of the range). The
  theorems hold for every \<open>d3\<close>; only the examples use this one.
\<close>

definition d3_extent :: "number list \<Rightarrow> number \<times> number" where
  "d3_extent vs =
     (case concat (map (\<lambda>v. case v of None \<Rightarrow> [] | Some r \<Rightarrow> [r]) vs) of
        [] \<Rightarrow> (None, None)
      | r # rs \<Rightarrow> (Some (fold min rs r), Some (fold max rs r)))"

definition d3_scaleLinear :: "number \<times> number \<Rightarrow> number \<times> number \<Rightarrow> number \<Rightarrow> number" where
  "d3_scaleLinear dm rg v =
     (case (fst dm, snd dm, fst rg, snd rg, v) of
        (Some d0, Some d1, Some r0, Some r1, Some u) \<Rightarrow>
          (let t = (if d1 - d0 = 0 then 1 / 2 else (u - d0) / (d1 - d0))
           in Some (r0 * (1 - t) + r1 * t))
      | _ \<Rightarrow> None)"

definition d3_model :: d3 where
  "d3_model = \<lparr>extent = d3_extent, scaleLinear = d3_scaleLinear\<rparr>"

text \<open>Four points, as an embedding computation delivers them.\<close>

definition fourPoints :: DashboardState where
  "fourPoints =
     setEmbeddingData [[0, 0], [10, 10], [5, 5], [2, 8]] [0, 1, 0, 1] [] [] [] initialState"

text \<open>
  A brush gesture on a plot whose inner width and height are 130: the four points are drawn
  at (15, 115), (115, 15), (65, 65) and (35, 35).
\<close>

definition brush :: "brushSelection \<Rightarrow> DashboardState \<Rightarrow> DashboardState" where
  "brush sel st = handleBrushEnd d3_model (Some 130) (Some 130) (Some sel) st"

definition rectA :: brushSelection where
  "rectA = ((Some 0, Some 0), (Some 40, Some 130))"

definition rectB :: brushSelection where
  "rectB = ((Some 100, Some 0), (Some 130, Some 130))"

definition rectC :: brushSelection where
  "rectC = ((Some 0, Some 0), (Some 65, Some 130))"

text \<open>The four points arrive, a brush gesture selects two of them, and \<^verbatim>\<open>selectCluster2\<close>
  is called directly with a third.\<close>

definition brushThenSelect2 :: "event list" where
  "brushThenSelect2 =
     [SetEmbeddingData [[0, 0], [10, 10], [5, 5], [2, 8]] [0, 1, 0, 1] [] [] [],
      BrushEnd (Some 130) (Some 130) (Some rectA),
      SelectCluster2 [1]]"

text \<open>Cluster2 is cleared, then cluster1, and two new clusters are selected.\<close>

definition clearThenSelect :: "event list" where
  "clearThenSelect = [ClearCluster2, ClearCluster1, SelectCluster1 [2], SelectCluster2 [3]]"

text \<open>A feature of a given rack, variable and p-value; the other fields do not matter.\<close>

definition feature :: "string \<Rightarrow> string \<Rightarrow> real \<Rightarrow> FeatureImportance" where
  "feature r v p = \<lparr>
     rank = 1, rack = r, variable = v, score = 0, importance = 0,
     cluster1_data = [], cluster2_data = [], cluster1_time = [], cluster2_time = [],
     mean_diff = 0,
     statistical_result = \<lparr>
       sr_rack = r, sr_variable = v, direction = [], sr_mean_diff = 0, p_value = Some p,
       cohen_d = 0, significance = [], effect_size = []\<rparr>\<rparr>"

text \<open>Four features of three variables, and two features whose variable names are numerals.\<close>

definition fourFeatures :: "FeatureImportance list" where
  "fourFeatures =
     [feature ''A01'' ''CPU'' 0.01, feature ''A02'' ''AirIn'' 0.2,
      feature ''A03'' ''AirIn'' 0.04, feature ''A04'' ''Water'' 0.05]"

definition numeralNames :: "FeatureImportance list" where
  "numeralNames = [feature ''A01'' ''2'' 0.01, feature ''A02'' ''1'' 0.2]"

text \<open>A state in which an analysis of two clusters is complete.\<close>

definition analysed :: "FeatureImportance list \<Rightarrow> DashboardState" where
  "analysed features =
     setInterpretation [] (setAnalysisResults features []
       (selectCluster2 [1] (selectCluster1 [0] fourPoints)))"

text \<open>A state in which an analysis of clusters of two points and of one point is complete
  and interpreted.\<close>

definition keyFindings :: InterpretationSection where
  "keyFindings = \<lparr>title = ''Key Findings'', text' = ''AirIn differs'', highlights = [''AirIn'']\<rparr>"

definition interpreted :: DashboardState where
  "interpreted =
     setInterpretation [keyFindings] (setAnalysisResults fourFeatures [[1 / 2]]
       (selectCluster2 [1] (selectCluster1 [0, 3] fourPoints)))"

text \<open>Ten analyses saved from a state in which an analysis is complete.\<close>

definition tenSaved :: DashboardState where
  "tenSaved = run d3_model (map (\<lambda>k. SaveCurrentAnalysis ''saved'' k) [0 ..< 10]) (analysed [])"


section \<open>Shared lemmas\<close>

lemmas store_defs =
  setConfig_def setSelectedClass_def updateWeight_def initializeWeights_def
  setEmbeddingData_def selectCluster1_def selectCluster2_def clearCluster1_def
  clearCluster2_def resetClusters_def
  setAnalysisResults_def setInterpretation_def clearHistory_def clearHistorySelection_def
  setCurrentFeatureIndex_def setActiveTab_def setSelectedVariable_def
  setInterpretationTab_def setIsLoading_def

lemma handleBrushEnd_cases:
  "handleBrushEnd lib w h sel st = st \<or>
   (\<exists>s. sel = Some s \<and> selectedIndices lib w h s st \<noteq> [] \<and>
     (handleBrushEnd lib w h sel st = selectCluster1 (selectedIndices lib w h s st) st \<or>
      cluster1 (clusters st) \<noteq> None \<and>
      handleBrushEnd lib w h sel st = selectCluster2 (selectedIndices lib w h s st) st))"
  by (cases sel) (simp_all add: handleBrushEnd_def Let_def)

lemma analysisHistory_brush [simp]:
  "analysisHistory (handleBrushEnd lib w h sel st) = analysisHistory st"
  using handleBrushEnd_cases [of lib w h sel st]
  by (auto simp: selectCluster1_def selectCluster2_def)

lemma selectedHistoryIds_brush [simp]:
  "selectedHistoryIds (handleBrushEnd lib w h sel st) = selectedHistoryIds st"
  using handleBrushEnd_cases [of lib w h sel st]
  by (auto simp: selectCluster1_def selectCluster2_def)

lemma selectedHistoryIds_save [simp]:
  "selectedHistoryIds (saveCurrentAnalysis i t st) = selectedHistoryIds st"
  by (simp add: saveCurrentAnalysis_def Let_def split: option.splits)

lemma length_history_save:
  "length (analysisHistory st) \<le> 10 \<Longrightarrow>
   length (analysisHistory (saveCurrentAnalysis i t st)) \<le> 10"
  by (simp add: saveCurrentAnalysis_def MAX_HISTORY_SIZE_def Let_def split: option.splits)

lemma toggle_cap:
  "length (selectedHistoryIds st) \<le> 2 \<Longrightarrow>
   length (selectedHistoryIds (toggleHistorySelection i st)) \<le> 2"
  unfolding toggleHistorySelection_def Let_def
  by (auto simp: slice_last_def intro: le_trans [OF length_filter_le])

lemma analysisHistory_toggle [simp]:
  "analysisHistory (toggleHistorySelection i st) = analysisHistory st"
  by (simp add: toggleHistorySelection_def Let_def)

lemma selection_cap_step:
  "length (selectedHistoryIds st) \<le> 2 \<Longrightarrow>
   length (selectedHistoryIds (apply_event lib e st)) \<le> 2"
  by (cases e) (simp_all add: toggle_cap store_defs)

lemma history_bound_step:
  "length (analysisHistory st) \<le> 10 \<Longrightarrow>
   length (analysisHistory (apply_event lib e st)) \<le> 10"
  by (cases e) (simp_all add: length_history_save store_defs)

lemma reachable_selection_cap:
  "reachable lib allowed st \<Longrightarrow> length (selectedHistoryIds st) \<le> 2"
  by (induction rule: reachable.induct) (simp_all add: initialState_def selection_cap_step)

lemma reachable_history_bound:
  "reachable lib allowed st \<Longrightarrow> length (analysisHistory st) \<le> 10"
  by (induction rule: reachable.induct) (simp_all add: initialState_def history_bound_step)

lemma reachable_run:
  "reachable lib anyEvent st \<Longrightarrow> reachable lib anyEvent (run lib es st)"
  unfolding run_def
  by (induction es arbitrary: st) (simp_all add: reachable_step anyEvent_def)


section \<open>The comparison selection\<close>

lemma toggle_unselected:
  "i \<notin> set (selectedHistoryIds st) \<Longrightarrow>
   selectedHistoryIds (toggleHistorySelection i st) = slice_last 2 (selectedHistoryIds st @ [i])"
  by (simp add: toggleHistorySelection_def)

lemma slice_last_pair: "slice_last 2 ([p, q] @ [i]) = [q, i]"
  by (simp add: slice_last_def)

lemma slice_last_two: "length pre \<le> 1 \<Longrightarrow> slice_last 2 ((pre @ [a]) @ [b]) = [a, b]"
  by (simp add: slice_last_def)

lemma slice_last_snoc:
  "\<exists>pre. slice_last 2 (xs @ [a]) = pre @ [a] \<and> length pre \<le> 1 \<and> set pre \<subseteq> set xs"
proof (cases "xs = []")
  case True
  then show ?thesis by (simp add: slice_last_def)
next
  case False
  then have "slice_last 2 (xs @ [a]) = drop (length xs - 1) xs @ [a]"
    by (simp add: slice_last_def)
  moreover have "length (drop (length xs - 1) xs) \<le> 1" by simp
  moreover have "set (drop (length xs - 1) xs) \<subseteq> set xs" by (rule set_drop_subset)
  ultimately show ?thesis by blast
qed

text \<open>
  Claim C5. \<^verbatim>\<open>toggleHistorySelection\<close> keeps the comparison selection at two ids or
  fewer, in every state a run reaches and across every toggle. Toggling an id that is not
  selected while two ids \<open>[p, q]\<close> are selected drops the older one, \<open>p\<close>, and adds the new id
  last. Toggling three distinct ids \<open>a\<close>, \<open>b\<close>, \<open>c\<close>, none of them selected before, leaves
  the selection \<open>[b, c]\<close>.
\<close>

theorem toggleHistorySelection_sliding_window:
  "(reachable lib allowed st \<longrightarrow> length (selectedHistoryIds st) \<le> 2) \<and>
   (length (selectedHistoryIds st) \<le> 2 \<longrightarrow>
      length (selectedHistoryIds (toggleHistorySelection i st)) \<le> 2) \<and>
   (selectedHistoryIds st = [p, q] \<and> i \<noteq> p \<and> i \<noteq> q \<longrightarrow>
      selectedHistoryIds (toggleHistorySelection i st) = [q, i]) \<and>
   (a \<noteq> b \<and> a \<noteq> c \<and> b \<noteq> c \<and> a \<notin> set (selectedHistoryIds st) \<and>
    b \<notin> set (selectedHistoryIds st) \<and> c \<notin> set (selectedHistoryIds st) \<longrightarrow>
      selectedHistoryIds
        (toggleHistorySelection c (toggleHistorySelection b (toggleHistorySelection a st))) =
      [b, c])"
proof (intro conjI impI)
  assume "reachable lib allowed st"
  then show "length (selectedHistoryIds st) \<le> 2" by (rule reachable_selection_cap)
next
  assume "length (selectedHistoryIds st) \<le> 2"
  then show "length (selectedHistoryIds (toggleHistorySelection i st)) \<le> 2"
    by (rule toggle_cap)
next
  assume "selectedHistoryIds st = [p, q] \<and> i \<noteq> p \<and> i \<noteq> q"
  then show "selectedHistoryIds (toggleHistorySelection i st) = [q, i]"
    using toggle_unselected [of i st] slice_last_pair [of p q i] by auto
next
  assume h: "a \<noteq> b \<and> a \<noteq> c \<and> b \<noteq> c \<and> a \<notin> set (selectedHistoryIds st) \<and>
    b \<notin> set (selectedHistoryIds st) \<and> c \<notin> set (selectedHistoryIds st)"
  let ?s1 = "toggleHistorySelection a st"
  let ?s2 = "toggleHistorySelection b ?s1"
  obtain pre where pre: "slice_last 2 (selectedHistoryIds st @ [a]) = pre @ [a]"
    "length pre \<le> 1" "set pre \<subseteq> set (selectedHistoryIds st)"
    using slice_last_snoc [of "selectedHistoryIds st" a] by blast
  have s1: "selectedHistoryIds ?s1 = pre @ [a]"
    using h pre(1) by (simp add: toggle_unselected)
  have "b \<notin> set (selectedHistoryIds ?s1)"
    using h pre(3) s1 by auto
  then have "selectedHistoryIds ?s2 = slice_last 2 ((pre @ [a]) @ [b])"
    using s1 by (simp add: toggle_unselected)
  then have s2: "selectedHistoryIds ?s2 = [a, b]"
    using pre(2) by (simp only: slice_last_two)
  have "c \<notin> set (selectedHistoryIds ?s2)"
    using h s2 by auto
  then have "selectedHistoryIds (toggleHistorySelection c ?s2) = slice_last 2 ([a, b] @ [c])"
    using s2 by (simp add: toggle_unselected)
  then show "selectedHistoryIds (toggleHistorySelection c ?s2) = [b, c]"
    by (simp only: slice_last_pair)
qed

theorem toggleHistorySelection_sliding_window_witness:
  "reachable d3_model anyEvent
     (run d3_model [ToggleHistorySelection ''A'', ToggleHistorySelection ''B''] initialState) \<and>
   selectedHistoryIds
     (run d3_model [ToggleHistorySelection ''A'', ToggleHistorySelection ''B''] initialState) =
   [''A'', ''B''] \<and>
   selectedHistoryIds (toggleHistorySelection ''C''
     (run d3_model [ToggleHistorySelection ''A'', ToggleHistorySelection ''B''] initialState)) =
   [''B'', ''C''] \<and>
   selectedHistoryIds initialState = [] \<and>
   selectedHistoryIds (toggleHistorySelection ''C'' (toggleHistorySelection ''B''
     (toggleHistorySelection ''A'' initialState))) = [''B'', ''C'']"
proof -
  let ?st = "run d3_model [ToggleHistorySelection ''A'', ToggleHistorySelection ''B''] initialState"
  have r: "reachable d3_model anyEvent ?st"
    by (rule reachable_run) (rule reachable_init)
  have ab: "selectedHistoryIds ?st = [''A'', ''B'']"
    by (simp add: run_def toggleHistorySelection_def slice_last_def initialState_def)
  have e: "selectedHistoryIds initialState = []"
    by (simp add: initialState_def)
  have d: "''C'' \<noteq> ''A'' \<and> ''C'' \<noteq> ''B''" "''A'' \<noteq> ''B'' \<and> ''A'' \<noteq> ''C'' \<and> ''B'' \<noteq> ''C''"
    by simp_all
  note T1 = toggleHistorySelection_sliding_window
        [of d3_model anyEvent ?st "''C''" "''A''" "''B''" "''A''" "''B''" "''C''"]
  note T2 = toggleHistorySelection_sliding_window
        [of d3_model anyEvent initialState "''C''" "''A''" "''B''" "''A''" "''B''" "''C''"]
  have w1: "selectedHistoryIds (toggleHistorySelection ''C'' ?st) = [''B'', ''C'']"
    using T1 ab d(1) by blast
  have "''A'' \<notin> set (selectedHistoryIds initialState) \<and>
        ''B'' \<notin> set (selectedHistoryIds initialState) \<and>
        ''C'' \<notin> set (selectedHistoryIds initialState)"
    by (simp add: e)
  then have w2: "selectedHistoryIds (toggleHistorySelection ''C'' (toggleHistorySelection ''B''
     (toggleHistorySelection ''A'' initialState))) = [''B'', ''C'']"
    using T2 d(2) by blast
  show ?thesis
    using r ab e w1 w2 by blast
qed


section \<open>Resetting the clusters, receiving a new embedding\<close>

text \<open>
  Claim C8. \<^verbatim>\<open>resetClusters\<close> unsets cluster1, cluster2, topFeatures, contributionMatrix
  and the interpretation, and leaves the embedding points and the history as they were.
  \<^verbatim>\<open>setEmbeddingData\<close> empties the history and the comparison selection, and leaves the
  cluster selection, topFeatures, contributionMatrix and the interpretation as they were.
\<close>

theorem reset_and_new_embedding_frame:
  "cluster1 (clusters (resetClusters st)) = None \<and>
   cluster2 (clusters (resetClusters st)) = None \<and>
   topFeatures (resetClusters st) = None \<and>
   contributionMatrix (resetClusters st) = None \<and>
   DashboardState.interpretation' (resetClusters st) = None \<and>
   embeddingData (resetClusters st) = embeddingData st \<and>
   analysisHistory (resetClusters st) = analysisHistory st \<and>
   analysisHistory (setEmbeddingData e l s ms mv st) = [] \<and>
   selectedHistoryIds (setEmbeddingData e l s ms mv st) = [] \<and>
   clusters (setEmbeddingData e l s ms mv st) = clusters st \<and>
   topFeatures (setEmbeddingData e l s ms mv st) = topFeatures st \<and>
   contributionMatrix (setEmbeddingData e l s ms mv st) = contributionMatrix st \<and>
   DashboardState.interpretation' (setEmbeddingData e l s ms mv st) =
     DashboardState.interpretation' st"
  by (simp add: resetClusters_def setEmbeddingData_def)


section \<open>Saving the current analysis\<close>

lemma save_unpopulated:
  "cluster1 (clusters st) = None \<or> cluster2 (clusters st) = None \<or> topFeatures st = None \<or>
   DashboardState.interpretation' st = None \<Longrightarrow> saveCurrentAnalysis i t st = st"
  by (auto simp: saveCurrentAnalysis_def split: option.splits)

lemma save_populated:
  "cluster1 (clusters st) = Some c1 \<Longrightarrow> cluster2 (clusters st) = Some c2 \<Longrightarrow>
   topFeatures st = Some fs \<Longrightarrow> DashboardState.interpretation' st = Some secs \<Longrightarrow>
   saveCurrentAnalysis i t st =
     st\<lparr>analysisHistory := take 10 (newAnalysis i t c1 c2 fs secs # analysisHistory st)\<rparr>"
  by (simp add: saveCurrentAnalysis_def MAX_HISTORY_SIZE_def)

lemma analysed_fields:
  "cluster1 (clusters (analysed fs)) = Some [0]"
  "cluster2 (clusters (analysed fs)) = Some [1]"
  "topFeatures (analysed fs) = Some fs"
  "DashboardState.interpretation' (analysed fs) = Some []"
  "analysisHistory (analysed fs) = []"
  by (simp_all add: analysed_def fourPoints_def store_defs initialState_def)

lemma save_keeps [simp]:
  "clusters (saveCurrentAnalysis i t st) = clusters st"
  "topFeatures (saveCurrentAnalysis i t st) = topFeatures st"
  "DashboardState.interpretation' (saveCurrentAnalysis i t st) = DashboardState.interpretation' st"
  by (simp_all add: saveCurrentAnalysis_def Let_def split: option.splits)

lemma take_append_take: "take n (xs @ take n ys) = take n (xs @ ys)"
  by (simp add: min_def)

lemma run_saves:
  "cluster1 (clusters st) = Some c1 \<Longrightarrow> cluster2 (clusters st) = Some c2 \<Longrightarrow>
   topFeatures st = Some fs \<Longrightarrow> DashboardState.interpretation' st = Some secs \<Longrightarrow>
   length (analysisHistory st) \<le> 10 \<Longrightarrow>
   clusters (run lib (map (\<lambda>k. SaveCurrentAnalysis i k) ks) st) = clusters st \<and>
   topFeatures (run lib (map (\<lambda>k. SaveCurrentAnalysis i k) ks) st) = topFeatures st \<and>
   DashboardState.interpretation' (run lib (map (\<lambda>k. SaveCurrentAnalysis i k) ks) st) =
     DashboardState.interpretation' st \<and>
   analysisHistory (run lib (map (\<lambda>k. SaveCurrentAnalysis i k) ks) st) =
     take 10 (rev (map (\<lambda>k. newAnalysis i k c1 c2 fs secs) ks) @ analysisHistory st)"
proof (induction ks arbitrary: st)
  case Nil
  then show ?case by (simp add: run_def)
next
  case (Cons k ks)
  let ?st = "saveCurrentAnalysis i k st"
  have eq: "analysisHistory ?st = take 10 (newAnalysis i k c1 c2 fs secs # analysisHistory st)"
    using Cons.prems by (simp add: save_populated)
  have r: "run lib (map (\<lambda>k. SaveCurrentAnalysis i k) (k # ks)) st =
           run lib (map (\<lambda>k. SaveCurrentAnalysis i k) ks) ?st"
    by (simp add: run_def)
  have ih: "clusters (run lib (map (\<lambda>k. SaveCurrentAnalysis i k) ks) ?st) = clusters ?st \<and>
   topFeatures (run lib (map (\<lambda>k. SaveCurrentAnalysis i k) ks) ?st) = topFeatures ?st \<and>
   DashboardState.interpretation' (run lib (map (\<lambda>k. SaveCurrentAnalysis i k) ks) ?st) =
     DashboardState.interpretation' ?st \<and>
   analysisHistory (run lib (map (\<lambda>k. SaveCurrentAnalysis i k) ks) ?st) =
     take 10 (rev (map (\<lambda>k. newAnalysis i k c1 c2 fs secs) ks) @ analysisHistory ?st)"
    using Cons.prems by (intro Cons.IH) (simp_all add: length_history_save)
  have tk: "take 10 (rev (map (\<lambda>k. newAnalysis i k c1 c2 fs secs) ks) @
               take 10 (newAnalysis i k c1 c2 fs secs # analysisHistory st)) =
            take 10 (rev (map (\<lambda>k. newAnalysis i k c1 c2 fs secs) (k # ks)) @ analysisHistory st)"
    by (simp only: take_append_take) simp
  show ?case
    unfolding r using ih eq tk by simp
qed

lemma tenSaved_fields:
  "cluster1 (clusters tenSaved) = Some [0]"
  "cluster2 (clusters tenSaved) = Some [1]"
  "topFeatures tenSaved = Some []"
  "DashboardState.interpretation' tenSaved = Some []"
  "length (analysisHistory tenSaved) = 10"
  unfolding tenSaved_def
  using run_saves [of "analysed []" "[0]" "[1]" "[]" "[]" d3_model "''saved''" "[0 ..< 10]"]
  by (simp_all add: analysed_fields)

lemma interpreted_fields:
  "cluster1 (clusters interpreted) = Some [0, 3]"
  "cluster2 (clusters interpreted) = Some [1]"
  "topFeatures interpreted = Some fourFeatures"
  "DashboardState.interpretation' interpreted = Some [keyFindings]"
  "analysisHistory interpreted = []"
  by (simp_all add: interpreted_def fourPoints_def store_defs initialState_def)

lemma fourFeatures_sortedVars: "sortedVars fourFeatures = [''AirIn'', ''CPU'', ''Water'']"
  by (simp add: fourFeatures_def sortedVars_def variableCounts_def countVariable_def
      feature_def objectEntries_def isArrayIndex_def isDigit_def decimalValue_def)

text \<open>
  Claim C6. When cluster1, cluster2, topFeatures or the interpretation is \<^verbatim>\<open>null\<close>,
  \<^verbatim>\<open>saveCurrentAnalysis\<close> returns the state it was given: the function has no other exit
  on that path and raises nothing. When all four are set, the new state is the old one with
  only \<open>analysisHistory\<close> replaced; the new history is the old one with one entry added at
  its head (and cut to ten entries); and that entry is the snapshot of the present values:
  the id and the timestamp of the call, the indices and the sizes of the two clusters, the
  topFeatures, the interpretation, and the summary computed from the topFeatures.
\<close>

theorem saveCurrentAnalysis_guard:
  "(cluster1 (clusters st) = None \<or> cluster2 (clusters st) = None \<or> topFeatures st = None \<or>
    DashboardState.interpretation' st = None \<longrightarrow> saveCurrentAnalysis i t st = st) \<and>
   (cluster1 (clusters st) = Some c1 \<and> cluster2 (clusters st) = Some c2 \<and>
    topFeatures st = Some fs \<and> DashboardState.interpretation' st = Some secs \<longrightarrow>
      saveCurrentAnalysis i t st =
        st\<lparr>analysisHistory := analysisHistory (saveCurrentAnalysis i t st)\<rparr> \<and>
      analysisHistory (saveCurrentAnalysis i t st) =
        take 10 (hd (analysisHistory (saveCurrentAnalysis i t st)) # analysisHistory st) \<and>
      hd (analysisHistory (saveCurrentAnalysis i t st)) \<in>
        set (analysisHistory (saveCurrentAnalysis i t st)) \<and>
      hd (analysisHistory (saveCurrentAnalysis i t st)) =
        \<lparr>id' = i,
         timestamp = t,
         cluster1_indices = c1,
         cluster2_indices = c2,
         cluster1_size = length c1,
         cluster2_size = length c2,
         top_features = fs,
         interpretation' = secs,
         summary =
           \<lparr>significant_count =
              length (filter (\<lambda>f. js_lt (p_value (statistical_result f)) (Some 0.05)) fs),
            top_variables = take 3 (sortedVars fs),
            top_racks = map rack (take 5 fs)\<rparr>\<rparr>)"
proof (intro conjI impI)
  assume "cluster1 (clusters st) = None \<or> cluster2 (clusters st) = None \<or>
    topFeatures st = None \<or> DashboardState.interpretation' st = None"
  then show "saveCurrentAnalysis i t st = st" by (rule save_unpopulated)
next
  assume h: "cluster1 (clusters st) = Some c1 \<and> cluster2 (clusters st) = Some c2 \<and>
    topFeatures st = Some fs \<and> DashboardState.interpretation' st = Some secs"
  then have eq: "saveCurrentAnalysis i t st =
     st\<lparr>analysisHistory := take 10 (newAnalysis i t c1 c2 fs secs # analysisHistory st)\<rparr>"
    by (simp add: save_populated)
  have hist: "analysisHistory (saveCurrentAnalysis i t st) =
     newAnalysis i t c1 c2 fs secs # take 9 (analysisHistory st)"
    by (simp add: eq take_Cons')
  have hd: "hd (analysisHistory (saveCurrentAnalysis i t st)) = newAnalysis i t c1 c2 fs secs"
    by (simp add: hist)
  show "saveCurrentAnalysis i t st =
        st\<lparr>analysisHistory := analysisHistory (saveCurrentAnalysis i t st)\<rparr>"
    by (simp add: eq)
  show "analysisHistory (saveCurrentAnalysis i t st) =
        take 10 (hd (analysisHistory (saveCurrentAnalysis i t st)) # analysisHistory st)"
    unfolding hd by (simp add: eq)
  show "hd (analysisHistory (saveCurrentAnalysis i t st)) \<in>
        set (analysisHistory (saveCurrentAnalysis i t st))"
    by (simp add: hist)
  show "hd (analysisHistory (saveCurrentAnalysis i t st)) =
        \<lparr>id' = i,
         timestamp = t,
         cluster1_indices = c1,
         cluster2_indices = c2,
         cluster1_size = length c1,
         cluster2_size = length c2,
         top_features = fs,
         interpretation' = secs,
         summary =
           \<lparr>significant_count =
              length (filter (\<lambda>f. js_lt (p_value (statistical_result f)) (Some 0.05)) fs),
            top_variables = take 3 (sortedVars fs),
            top_racks = map rack (take 5 fs)\<rparr>\<rparr>"
    unfolding hd by (simp add: newAnalysis_def significantFeatures_def racks_def)
qed

theorem saveCurrentAnalysis_guard_witness:
  "topFeatures initialState = None \<and>
   saveCurrentAnalysis ''id'' 7 initialState = initialState \<and>
   cluster1 (clusters interpreted) = Some [0, 3] \<and>
   cluster2 (clusters interpreted) = Some [1] \<and>
   topFeatures interpreted = Some fourFeatures \<and>
   DashboardState.interpretation' interpreted = Some [keyFindings] \<and>
   saveCurrentAnalysis ''id'' 7 interpreted =
     interpreted\<lparr>analysisHistory :=
       [\<lparr>id' = ''id'',
         timestamp = 7,
         cluster1_indices = [0, 3],
         cluster2_indices = [1],
         cluster1_size = 2,
         cluster2_size = 1,
         top_features = fourFeatures,
         interpretation' = [keyFindings],
         summary =
           \<lparr>significant_count = 2,
            top_variables = [''AirIn'', ''CPU'', ''Water''],
            top_racks = [''A01'', ''A02'', ''A03'', ''A04'']\<rparr>\<rparr>]\<rparr>"
proof -
  have n: "topFeatures initialState = None" by (simp add: initialState_def)
  note T1 = saveCurrentAnalysis_guard
    [of initialState "''id''" 7 "[0, 3]" "[1]" fourFeatures "[keyFindings]"]
  note T2 = saveCurrentAnalysis_guard
    [of interpreted "''id''" 7 "[0, 3]" "[1]" fourFeatures "[keyFindings]"]
  have a: "saveCurrentAnalysis ''id'' 7 initialState = initialState"
    using T1 n by blast
  have sc: "length (filter (\<lambda>f. js_lt (p_value (statistical_result f)) (Some 0.05))
              fourFeatures) = 2"
    by (simp add: fourFeatures_def feature_def js_lt_def)
  have tr: "map rack (take 5 fourFeatures) = [''A01'', ''A02'', ''A03'', ''A04'']"
    by (simp add: fourFeatures_def feature_def)
  let ?snap = "hd (analysisHistory (saveCurrentAnalysis ''id'' 7 interpreted))"
  have pop: "cluster1 (clusters interpreted) = Some [0, 3] \<and>
    cluster2 (clusters interpreted) = Some [1] \<and>
    topFeatures interpreted = Some fourFeatures \<and>
    DashboardState.interpretation' interpreted = Some [keyFindings]"
    by (simp add: interpreted_fields)
  have frame: "saveCurrentAnalysis ''id'' 7 interpreted =
      interpreted\<lparr>analysisHistory := analysisHistory (saveCurrentAnalysis ''id'' 7 interpreted)\<rparr>"
    using T2 pop by blast
  have "analysisHistory (saveCurrentAnalysis ''id'' 7 interpreted) =
      take 10 (?snap # analysisHistory interpreted)"
    using T2 pop by blast
  then have hist: "analysisHistory (saveCurrentAnalysis ''id'' 7 interpreted) = [?snap]"
    by (simp only: interpreted_fields(5)) simp
  have "?snap =
       \<lparr>id' = ''id'',
         timestamp = 7,
         cluster1_indices = [0, 3],
         cluster2_indices = [1],
         cluster1_size = length [0, 3 :: nat],
         cluster2_size = length [1 :: nat],
         top_features = fourFeatures,
         interpretation' = [keyFindings],
         summary =
           \<lparr>significant_count =
              length (filter (\<lambda>f. js_lt (p_value (statistical_result f)) (Some 0.05))
                fourFeatures),
            top_variables = take 3 (sortedVars fourFeatures),
            top_racks = map rack (take 5 fourFeatures)\<rparr>\<rparr>"
    using T2 pop by blast
  then have snap: "?snap =
       \<lparr>id' = ''id'',
         timestamp = 7,
         cluster1_indices = [0, 3],
         cluster2_indices = [1],
         cluster1_size = 2,
         cluster2_size = 1,
         top_features = fourFeatures,
         interpretation' = [keyFindings],
         summary =
           \<lparr>significant_count = 2,
            top_variables = [''AirIn'', ''CPU'', ''Water''],
            top_racks = [''A01'', ''A02'', ''A03'', ''A04'']\<rparr>\<rparr>"
    by (simp only: sc tr fourFeatures_sortedVars) simp
  have b: "saveCurrentAnalysis ''id'' 7 interpreted =
      interpreted\<lparr>analysisHistory := [?snap]\<rparr>"
    using frame hist by simp
  show ?thesis
    using n a b pop unfolding snap by blast
qed

text \<open>
  Claim C4. A save made with all four values set puts the new snapshot at the head of the
  history and keeps the older entries behind it in their order, the first nine of them.
  When ten entries are held, the result is the new snapshot followed by the old history
  without its last entry, ten entries again. A save never takes a history of at most ten
  entries beyond ten, and no run reaches a history of more than ten entries.
\<close>

theorem saveCurrentAnalysis_history_bound:
  "(cluster1 (clusters st) = Some c1 \<and> cluster2 (clusters st) = Some c2 \<and>
    topFeatures st = Some fs \<and> DashboardState.interpretation' st = Some secs \<longrightarrow>
      hd (analysisHistory (saveCurrentAnalysis i t st)) = newAnalysis i t c1 c2 fs secs \<and>
      tl (analysisHistory (saveCurrentAnalysis i t st)) = take 9 (analysisHistory st) \<and>
      (length (analysisHistory st) = 10 \<longrightarrow>
         analysisHistory (saveCurrentAnalysis i t st) =
           newAnalysis i t c1 c2 fs secs # butlast (analysisHistory st) \<and>
         length (analysisHistory (saveCurrentAnalysis i t st)) = 10)) \<and>
   (length (analysisHistory st) \<le> 10 \<longrightarrow>
      length (analysisHistory (saveCurrentAnalysis i t st)) \<le> 10) \<and>
   (reachable lib allowed st \<longrightarrow> length (analysisHistory st) \<le> 10)"
proof (intro conjI impI)
  assume h: "cluster1 (clusters st) = Some c1 \<and> cluster2 (clusters st) = Some c2 \<and>
    topFeatures st = Some fs \<and> DashboardState.interpretation' st = Some secs"
  then have eq: "analysisHistory (saveCurrentAnalysis i t st) =
      take 10 (newAnalysis i t c1 c2 fs secs # analysisHistory st)"
    by (simp add: save_populated)
  have t: "take 10 (newAnalysis i t c1 c2 fs secs # analysisHistory st) =
      newAnalysis i t c1 c2 fs secs # take 9 (analysisHistory st)"
    by (simp add: take_Cons')
  show "hd (analysisHistory (saveCurrentAnalysis i t st)) = newAnalysis i t c1 c2 fs secs"
    by (simp add: eq t)
  show "tl (analysisHistory (saveCurrentAnalysis i t st)) = take 9 (analysisHistory st)"
    by (simp add: eq t)
  assume l: "length (analysisHistory st) = 10"
  then have "butlast (analysisHistory st) = take 9 (analysisHistory st)"
    by (simp add: butlast_conv_take)
  then show "analysisHistory (saveCurrentAnalysis i t st) =
           newAnalysis i t c1 c2 fs secs # butlast (analysisHistory st)"
    by (simp add: eq t)
  show "length (analysisHistory (saveCurrentAnalysis i t st)) = 10"
    using l by (simp add: eq t)
next
  assume "length (analysisHistory st) \<le> 10"
  then show "length (analysisHistory (saveCurrentAnalysis i t st)) \<le> 10"
    by (rule length_history_save)
next
  assume "reachable lib allowed st"
  then show "length (analysisHistory st) \<le> 10" by (rule reachable_history_bound)
qed

theorem saveCurrentAnalysis_history_bound_witness:
  "cluster1 (clusters tenSaved) = Some [0] \<and> cluster2 (clusters tenSaved) = Some [1] \<and>
   topFeatures tenSaved = Some [] \<and> DashboardState.interpretation' tenSaved = Some [] \<and>
   length (analysisHistory tenSaved) = 10 \<and>
   reachable d3_model anyEvent tenSaved \<and>
   hd (analysisHistory (saveCurrentAnalysis ''new'' 11 tenSaved)) =
     newAnalysis ''new'' 11 [0] [1] [] [] \<and>
   analysisHistory (saveCurrentAnalysis ''new'' 11 tenSaved) =
     newAnalysis ''new'' 11 [0] [1] [] [] # butlast (analysisHistory tenSaved) \<and>
   length (analysisHistory (saveCurrentAnalysis ''new'' 11 tenSaved)) = 10"
proof -
  have r0: "reachable d3_model anyEvent (analysed [])"
    unfolding analysed_def fourPoints_def
    using reachable_run [OF reachable_init, of d3_model
      "[SetEmbeddingData [[0, 0], [10, 10], [5, 5], [2, 8]] [0, 1, 0, 1] [] [] [],
        SelectCluster1 [0], SelectCluster2 [1], SetAnalysisResults [] [], SetInterpretation []]"]
    by (simp add: run_def)
  have r: "reachable d3_model anyEvent tenSaved"
    unfolding tenSaved_def by (rule reachable_run) (rule r0)
  note T = saveCurrentAnalysis_history_bound
    [of tenSaved "[0]" "[1]" "[]" "[]" "''new''" 11 d3_model anyEvent]
  show ?thesis
    using T r tenSaved_fields by blast
qed


section \<open>The brush selection and the two slots\<close>

lemma fourPoints_data:
  "embeddingData fourPoints =
     [\<lparr>x = Some 0, y = Some 0, index = 0, label = Some 0\<rparr>,
      \<lparr>x = Some 10, y = Some 10, index = 1, label = Some 1\<rparr>,
      \<lparr>x = Some 5, y = Some 5, index = 2, label = Some 0\<rparr>,
      \<lparr>x = Some 2, y = Some 8, index = 3, label = Some 1\<rparr>]"
  by (simp add: fourPoints_def setEmbeddingData_def toPoint_def js_index_def upt_rec)

lemma fourPoints_clusters: "clusters fourPoints = \<lparr>cluster1 = None, cluster2 = None\<rparr>"
  by (simp add: fourPoints_def setEmbeddingData_def initialState_def)

lemma fourPoints_xScale:
  "embeddingData st = embeddingData fourPoints \<Longrightarrow>
   xScale d3_model (Some 130) (embeddingData st) (Some v) = Some (15 + 10 * v)"
  by (simp add: fourPoints_data xScale_def d3_model_def d3_extent_def d3_scaleLinear_def
      js_sub_def js_add_def js_mul_def Let_def algebra_simps)

lemma fourPoints_yScale:
  "embeddingData st = embeddingData fourPoints \<Longrightarrow>
   yScale d3_model (Some 130) (embeddingData st) (Some v) = Some (115 - 10 * v)"
  by (simp add: fourPoints_data yScale_def d3_model_def d3_extent_def d3_scaleLinear_def
      js_sub_def js_add_def js_mul_def Let_def algebra_simps)

lemma fourPoints_brushFilter:
  "embeddingData st = embeddingData fourPoints \<Longrightarrow>
   brushFilter d3_model (Some 130) (Some 130) ((Some x0, Some y0), (Some x1, Some y1)) st
     \<lparr>x = Some u, y = Some v, index = k, label = l\<rparr> =
   (k \<notin> set (orEmpty (cluster1 (clusters st))) \<and> k \<notin> set (orEmpty (cluster2 (clusters st))) \<and>
    x0 \<le> 15 + 10 * u \<and> 15 + 10 * u \<le> x1 \<and> y0 \<le> 115 - 10 * v \<and> 115 - 10 * v \<le> y1)"
  by (simp add: brushFilter_def fourPoints_xScale fourPoints_yScale js_ge_def js_le_def Let_def)

lemma fourPoints_selected:
  "embeddingData st = embeddingData fourPoints \<Longrightarrow>
   selectedIndices d3_model (Some 130) (Some 130) ((Some x0, Some y0), (Some x1, Some y1)) st =
   map index (filter (\<lambda>d. index d \<notin> set (orEmpty (cluster1 (clusters st))) \<and>
                           index d \<notin> set (orEmpty (cluster2 (clusters st))) \<and>
                           x0 \<le> 15 + 10 * the (x d) \<and> 15 + 10 * the (x d) \<le> x1 \<and>
                           y0 \<le> 115 - 10 * the (y d) \<and> 115 - 10 * the (y d) \<le> y1)
       (embeddingData fourPoints))"
  unfolding selectedIndices_def
  apply (simp only: fourPoints_data)
  apply (simp add: fourPoints_brushFilter fourPoints_data)
  done

lemma brushFilter_assigned:
  "index d \<in> set (orEmpty (cluster1 (clusters st))) \<union> set (orEmpty (cluster2 (clusters st))) \<Longrightarrow>
   \<not> brushFilter lib w h sel st d"
  by (cases sel) (auto simp: brushFilter_def)

lemma js_ge_le: "js_ge a b = js_le b a"
  by (simp add: js_ge_def js_le_def split: option.splits)

lemma brushFilter_unassigned:
  "index d \<notin> set (orEmpty (cluster1 (clusters st))) \<union> set (orEmpty (cluster2 (clusters st))) \<Longrightarrow>
   brushFilter lib w h ((x0, y0), (x1, y1)) st d =
     (js_le x0 (xScale lib w (embeddingData st) (x d)) \<and>
      js_le (xScale lib w (embeddingData st) (x d)) x1 \<and>
      js_le y0 (yScale lib h (embeddingData st) (y d)) \<and>
      js_le (yScale lib h (embeddingData st) (y d)) y1)"
  by (simp add: brushFilter_def js_ge_le Let_def)

lemma selectedIndices_unassigned:
  "set (selectedIndices lib w h sel st) \<inter>
     (set (orEmpty (cluster1 (clusters st))) \<union> set (orEmpty (cluster2 (clusters st)))) = {}"
  using brushFilter_assigned [of _ st lib w h sel]
  by (auto simp: selectedIndices_def)

lemma handleBrushEnd_empty:
  "selectedIndices lib w h sel st = [] \<Longrightarrow> handleBrushEnd lib w h (Some sel) st = st"
  by (simp add: handleBrushEnd_def)

lemma handleBrushEnd_nonempty:
  "embeddingData st \<noteq> [] \<Longrightarrow> selectedIndices lib w h sel st \<noteq> [] \<Longrightarrow>
   handleBrushEnd lib w h (Some sel) st =
     (if cluster1 (clusters st) = None then selectCluster1 (selectedIndices lib w h sel st) st
      else if cluster2 (clusters st) = None then selectCluster2 (selectedIndices lib w h sel st) st
      else selectCluster1 (selectedIndices lib w h sel st) st)"
  by (simp add: handleBrushEnd_def Let_def)

lemma selectedIndices_nonempty_data:
  "selectedIndices lib w h sel st \<noteq> [] \<Longrightarrow> embeddingData st \<noteq> []"
  by (auto simp: selectedIndices_def)

lemma embeddingData_brush [simp]:
  "embeddingData (handleBrushEnd lib w h sel st) = embeddingData st"
  using handleBrushEnd_cases [of lib w h sel st]
  by (auto simp: selectCluster1_def selectCluster2_def)

lemma brush_data [simp]: "embeddingData (brush sel st) = embeddingData st"
  by (simp add: brush_def)

lemma selected_A:
  "selectedIndices d3_model (Some 130) (Some 130) rectA fourPoints = [0, 3]"
  by (simp add: rectA_def fourPoints_selected fourPoints_data fourPoints_clusters orEmpty_def)

lemma selected_B:
  "embeddingData st = embeddingData fourPoints \<Longrightarrow>
   clusters st = \<lparr>cluster1 = Some [0, 3], cluster2 = None\<rparr> \<Longrightarrow>
   selectedIndices d3_model (Some 130) (Some 130) rectB st = [1]"
  by (simp add: rectB_def fourPoints_selected fourPoints_data orEmpty_def)

lemma selected_A_assigned:
  "embeddingData st = embeddingData fourPoints \<Longrightarrow>
   clusters st = \<lparr>cluster1 = Some [0, 3], cluster2 = c2\<rparr> \<Longrightarrow>
   selectedIndices d3_model (Some 130) (Some 130) rectA st = []"
  by (simp add: rectA_def fourPoints_selected fourPoints_data orEmpty_def)

lemma selected_C:
  "embeddingData st = embeddingData fourPoints \<Longrightarrow>
   clusters st = \<lparr>cluster1 = Some [0, 3], cluster2 = c2\<rparr> \<Longrightarrow> 2 \<notin> set (orEmpty c2) \<Longrightarrow>
   selectedIndices d3_model (Some 130) (Some 130) rectC st = [2]"
  by (simp add: rectC_def fourPoints_selected fourPoints_data orEmpty_def)

lemma brushA_clusters:
  "clusters (brush rectA fourPoints) = \<lparr>cluster1 = Some [0, 3], cluster2 = None\<rparr>"
  using selected_A
  by (simp add: brush_def handleBrushEnd_def fourPoints_data fourPoints_clusters selectCluster1_def)

text \<open>
  Claim C3. For every brush rectangle \<open>(x0, y0)-(x1, y1)\<close>, every state and every scale:
  a point whose index is in cluster1 or cluster2 is rejected by the filter, and no selected
  index is in either cluster; a point whose index is in neither is accepted exactly when its
  screen position \<open>(px, py)\<close> satisfies \<open>x0 \<le> px \<le> x1\<close> and \<open>y0 \<le> py \<le> y1\<close>, bounds
  included; the selected indices are those of the accepted points, in the order of the
  point collection; and when no index is selected \<^verbatim>\<open>handleBrushEnd\<close> returns the state
  unchanged.
\<close>

theorem brush_candidates:
  "(index d \<in> set (orEmpty (cluster1 (clusters st))) \<union> set (orEmpty (cluster2 (clusters st))) \<longrightarrow>
      \<not> brushFilter lib w h ((x0, y0), (x1, y1)) st d) \<and>
   set (selectedIndices lib w h ((x0, y0), (x1, y1)) st) \<inter>
     (set (orEmpty (cluster1 (clusters st))) \<union> set (orEmpty (cluster2 (clusters st)))) = {} \<and>
   (index d \<notin> set (orEmpty (cluster1 (clusters st))) \<union> set (orEmpty (cluster2 (clusters st))) \<longrightarrow>
      brushFilter lib w h ((x0, y0), (x1, y1)) st d =
        (js_le x0 (xScale lib w (embeddingData st) (x d)) \<and>
         js_le (xScale lib w (embeddingData st) (x d)) x1 \<and>
         js_le y0 (yScale lib h (embeddingData st) (y d)) \<and>
         js_le (yScale lib h (embeddingData st) (y d)) y1)) \<and>
   selectedIndices lib w h ((x0, y0), (x1, y1)) st =
     map index (filter (brushFilter lib w h ((x0, y0), (x1, y1)) st) (embeddingData st)) \<and>
   subseq (selectedIndices lib w h ((x0, y0), (x1, y1)) st) (map index (embeddingData st)) \<and>
   (selectedIndices lib w h ((x0, y0), (x1, y1)) st = [] \<longrightarrow>
      handleBrushEnd lib w h (Some ((x0, y0), (x1, y1))) st = st)"
proof (intro conjI impI)
  show "subseq (selectedIndices lib w h ((x0, y0), (x1, y1)) st) (map index (embeddingData st))"
    unfolding selectedIndices_def by (rule subseq_map) (rule subseq_filter_left)
qed (simp_all add: brushFilter_assigned brushFilter_unassigned selectedIndices_unassigned
       handleBrushEnd_empty selectedIndices_def [symmetric])

theorem brush_candidates_witness:
  "index \<lparr>x = Some 0, y = Some 0, index = 0, label = Some 0\<rparr> \<in>
     set (orEmpty (cluster1 (clusters (brush rectA fourPoints)))) \<union>
     set (orEmpty (cluster2 (clusters (brush rectA fourPoints)))) \<and>
   \<not> brushFilter d3_model (Some 130) (Some 130) rectC (brush rectA fourPoints)
       \<lparr>x = Some 0, y = Some 0, index = 0, label = Some 0\<rparr> \<and>
   index \<lparr>x = Some 5, y = Some 5, index = 2, label = Some 0\<rparr> \<notin>
     set (orEmpty (cluster1 (clusters (brush rectA fourPoints)))) \<union>
     set (orEmpty (cluster2 (clusters (brush rectA fourPoints)))) \<and>
   xScale d3_model (Some 130) (embeddingData (brush rectA fourPoints)) (Some 5) = Some 65 \<and>
   brushFilter d3_model (Some 130) (Some 130) rectC (brush rectA fourPoints)
       \<lparr>x = Some 5, y = Some 5, index = 2, label = Some 0\<rparr> \<and>
   selectedIndices d3_model (Some 130) (Some 130) rectC (brush rectA fourPoints) = [2] \<and>
   selectedIndices d3_model (Some 130) (Some 130) rectA (brush rectA fourPoints) = [] \<and>
   brush rectA (brush rectA fourPoints) = brush rectA fourPoints"
proof -
  let ?st = "brush rectA fourPoints"
  let ?p0 = "\<lparr>x = Some 0, y = Some 0, index = 0, label = Some 0\<rparr>"
  let ?p2 = "\<lparr>x = Some 5, y = Some 5, index = 2, label = Some 0\<rparr>"
  note T0 = brush_candidates
    [of ?p0 ?st d3_model "Some 130" "Some 130" "Some 0" "Some 0" "Some 65" "Some 130"]
  note T2 = brush_candidates
    [of ?p2 ?st d3_model "Some 130" "Some 130" "Some 0" "Some 0" "Some 65" "Some 130"]
  note TA = brush_candidates
    [of ?p0 ?st d3_model "Some 130" "Some 130" "Some 0" "Some 0" "Some 40" "Some 130"]
  have in0: "index ?p0 \<in> set (orEmpty (cluster1 (clusters ?st))) \<union>
     set (orEmpty (cluster2 (clusters ?st)))"
    by (simp add: brushA_clusters orEmpty_def)
  have out2: "index ?p2 \<notin> set (orEmpty (cluster1 (clusters ?st))) \<union>
     set (orEmpty (cluster2 (clusters ?st)))"
    by (simp add: brushA_clusters orEmpty_def)
  have sx: "xScale d3_model (Some 130) (embeddingData ?st) (Some 5) = Some 65"
    by (simp add: fourPoints_xScale)
  have sy: "yScale d3_model (Some 130) (embeddingData ?st) (Some 5) = Some 65"
    by (simp add: fourPoints_yScale)
  have n0: "\<not> brushFilter d3_model (Some 130) (Some 130) rectC ?st ?p0"
    unfolding rectC_def using T0 in0 by blast
  have y2: "brushFilter d3_model (Some 130) (Some 130) rectC ?st ?p2"
    unfolding rectC_def using T2 out2
    by (simp add: fourPoints_xScale [of fourPoints] fourPoints_yScale [of fourPoints] js_le_def)
  have c: "selectedIndices d3_model (Some 130) (Some 130) rectC ?st = [2]"
    using brushA_clusters by (intro selected_C [where ?c2.0 = None]) (simp_all add: orEmpty_def)
  have a: "selectedIndices d3_model (Some 130) (Some 130) rectA ?st = []"
    using brushA_clusters by (intro selected_A_assigned [where ?c2.0 = None]) simp_all
  have noop: "brush rectA ?st = ?st"
    unfolding brush_def [of rectA ?st] using TA a by (simp add: rectA_def)
  show ?thesis
    using in0 n0 out2 sx y2 c a noop by blast
qed

text \<open>
  Claim C2. Let \<open>S\<close> be the non-empty list of indices a brush gesture selects. With both
  slots unset, the gesture sets cluster1 to \<open>S\<close>. With cluster1 set to \<open>A\<close> and cluster2
  unset, it sets cluster2 to \<open>S\<close> and leaves cluster1 at \<open>A\<close>. With both slots set, it
  sets cluster1 to \<open>S\<close> and unsets cluster2: one slot is filled.
\<close>

theorem brush_assignment:
  "selectedIndices lib w h sel st = S \<and> S \<noteq> [] \<longrightarrow>
   (slotsOf (clusters st) = Empty \<longrightarrow>
      clusters (handleBrushEnd lib w h (Some sel) st) = \<lparr>cluster1 = Some S, cluster2 = None\<rparr>) \<and>
   (cluster1 (clusters st) = Some A \<and> cluster2 (clusters st) = None \<longrightarrow>
      clusters (handleBrushEnd lib w h (Some sel) st) = \<lparr>cluster1 = Some A, cluster2 = Some S\<rparr> \<and>
      slotsOf (clusters (handleBrushEnd lib w h (Some sel) st)) = BothFilled) \<and>
   (slotsOf (clusters st) = BothFilled \<longrightarrow>
      clusters (handleBrushEnd lib w h (Some sel) st) = \<lparr>cluster1 = Some S, cluster2 = None\<rparr> \<and>
      slotsOf (clusters (handleBrushEnd lib w h (Some sel) st)) = OneFilled)"
proof (intro impI)
  assume h: "selectedIndices lib w h sel st = S \<and> S \<noteq> []"
  then have ne: "embeddingData st \<noteq> []"
    using selectedIndices_nonempty_data by blast
  have eq: "handleBrushEnd lib w h (Some sel) st =
     (if cluster1 (clusters st) = None then selectCluster1 S st
      else if cluster2 (clusters st) = None then selectCluster2 S st
      else selectCluster1 S st)"
    using h ne handleBrushEnd_nonempty [of st lib w h sel] by simp
  show "(slotsOf (clusters st) = Empty \<longrightarrow>
      clusters (handleBrushEnd lib w h (Some sel) st) = \<lparr>cluster1 = Some S, cluster2 = None\<rparr>) \<and>
   (cluster1 (clusters st) = Some A \<and> cluster2 (clusters st) = None \<longrightarrow>
      clusters (handleBrushEnd lib w h (Some sel) st) = \<lparr>cluster1 = Some A, cluster2 = Some S\<rparr> \<and>
      slotsOf (clusters (handleBrushEnd lib w h (Some sel) st)) = BothFilled) \<and>
   (slotsOf (clusters st) = BothFilled \<longrightarrow>
      clusters (handleBrushEnd lib w h (Some sel) st) = \<lparr>cluster1 = Some S, cluster2 = None\<rparr> \<and>
      slotsOf (clusters (handleBrushEnd lib w h (Some sel) st)) = OneFilled)"
    unfolding eq
    by (auto simp: slotsOf_def selectCluster1_def selectCluster2_def split: option.splits)
qed

theorem brush_assignment_witness:
  "selectedIndices d3_model (Some 130) (Some 130) rectA fourPoints = [0, 3] \<and>
   slotsOf (clusters fourPoints) = Empty \<and>
   clusters (brush rectA fourPoints) = \<lparr>cluster1 = Some [0, 3], cluster2 = None\<rparr> \<and>
   selectedIndices d3_model (Some 130) (Some 130) rectB (brush rectA fourPoints) = [1] \<and>
   clusters (brush rectB (brush rectA fourPoints)) =
     \<lparr>cluster1 = Some [0, 3], cluster2 = Some [1]\<rparr> \<and>
   selectedIndices d3_model (Some 130) (Some 130) rectC (brush rectB (brush rectA fourPoints)) = [2] \<and>
   clusters (brush rectC (brush rectB (brush rectA fourPoints))) =
     \<lparr>cluster1 = Some [2], cluster2 = None\<rparr>"
proof -
  let ?s1 = "brush rectA fourPoints"
  let ?s2 = "brush rectB ?s1"
  have e0: "slotsOf (clusters fourPoints) = Empty"
    by (simp add: fourPoints_clusters slotsOf_def)
  have c1: "clusters ?s1 = \<lparr>cluster1 = Some [0, 3], cluster2 = None\<rparr>"
    unfolding brush_def
    using brush_assignment [of d3_model "Some 130" "Some 130" rectA fourPoints "[0, 3]"]
      selected_A e0 by simp
  have b: "selectedIndices d3_model (Some 130) (Some 130) rectB ?s1 = [1]"
    using c1 by (intro selected_B) simp_all
  have c2: "clusters ?s2 = \<lparr>cluster1 = Some [0, 3], cluster2 = Some [1]\<rparr>"
    unfolding brush_def [of rectB]
    using brush_assignment [of d3_model "Some 130" "Some 130" rectB ?s1 "[1]" "[0, 3]"] b c1
    by simp
  have c: "selectedIndices d3_model (Some 130) (Some 130) rectC ?s2 = [2]"
    using c2 by (intro selected_C [where ?c2.0 = "Some [1]"]) (simp_all add: orEmpty_def)
  have f2: "slotsOf (clusters ?s2) = BothFilled"
    by (simp add: c2 slotsOf_def)
  have c3: "clusters (brush rectC ?s2) = \<lparr>cluster1 = Some [2], cluster2 = None\<rparr>"
    unfolding brush_def [of rectC]
    using brush_assignment [of d3_model "Some 130" "Some 130" rectC ?s2 "[2]"] c f2
    by simp
  show ?thesis
    using selected_A e0 c1 b c2 c c3 by blast
qed


section \<open>The points of an embedding\<close>

text \<open>
  Claim C9. The points \<^verbatim>\<open>setEmbeddingData\<close> creates are as many as the rows of the
  embedding, and the \<open>index\<close> of the point made from row \<open>k\<close> is \<open>k\<close>. Filtering does not
  change it: a point that any filter keeps is still found in the collection at its \<open>index\<close>,
  and every index a brush gesture selects is that of the row of its point, whatever the
  position of the point among the selected ones.
\<close>

theorem embedding_index_stable:
  "length (embeddingData (setEmbeddingData e l s ms mv st)) = length e \<and>
   map index (embeddingData (setEmbeddingData e l s ms mv st)) = [0 ..< length e] \<and>
   (\<forall>k < length e.
      embeddingData (setEmbeddingData e l s ms mv st) ! k =
        \<lparr>x = js_index (e ! k) 0, y = js_index (e ! k) 1, index = k, label = js_index l k\<rparr>) \<and>
   (\<forall>d \<in> set (filter P (embeddingData (setEmbeddingData e l s ms mv st))).
      index d < length e \<and> embeddingData (setEmbeddingData e l s ms mv st) ! index d = d) \<and>
   (\<forall>k \<in> set (selectedIndices lib w h sel (setEmbeddingData e l s ms mv st)).
      k < length e \<and>
      index (embeddingData (setEmbeddingData e l s ms mv st) ! k) = k \<and>
      brushFilter lib w h sel (setEmbeddingData e l s ms mv st)
        (embeddingData (setEmbeddingData e l s ms mv st) ! k))"
proof -
  let ?pts = "embeddingData (setEmbeddingData e l s ms mv st)"
  have pts: "?pts = map (toPoint l) (zip e [0 ..< length e])"
    by (simp add: setEmbeddingData_def)
  have len: "length ?pts = length e"
    by (simp add: pts)
  have nth: "?pts ! k =
      \<lparr>x = js_index (e ! k) 0, y = js_index (e ! k) 1, index = k, label = js_index l k\<rparr>"
    if "k < length e" for k
    using that by (simp add: pts toPoint_def)
  have idx: "map index ?pts = [0 ..< length e]"
    by (rule nth_equalityI) (simp_all add: len nth)
  have mem: "index d < length e \<and> ?pts ! index d = d" if "d \<in> set ?pts" for d
  proof -
    from that obtain k where k: "k < length ?pts" "?pts ! k = d"
      by (auto simp: in_set_conv_nth)
    then have "index d = k" using nth [of k] len by auto
    then show ?thesis using k len by simp
  qed
  have sel: "k < length e \<and> index (?pts ! k) = k \<and>
      brushFilter lib w h sel (setEmbeddingData e l s ms mv st) (?pts ! k)"
    if "k \<in> set (selectedIndices lib w h sel (setEmbeddingData e l s ms mv st))" for k
  proof -
    from that obtain d where d: "d \<in> set ?pts" "index d = k"
      "brushFilter lib w h sel (setEmbeddingData e l s ms mv st) d"
      by (auto simp: selectedIndices_def)
    then show ?thesis using mem [of d] by auto
  qed
  have memP: "index d < length e \<and> ?pts ! index d = d" if "d \<in> set (filter P ?pts)" for d
    using that mem [of d] by simp
  show ?thesis
    using len idx nth memP sel by blast
qed

theorem embedding_index_stable_witness:
  "selectedIndices d3_model (Some 130) (Some 130) rectA fourPoints = [0, 3] \<and>
   (3 :: nat) < length [[0, 0], [10, 10], [5, 5], [2, 8 :: real]] \<and>
   map index (embeddingData fourPoints) = [0, 1, 2, 3] \<and>
   embeddingData fourPoints ! 3 = \<lparr>x = Some 2, y = Some 8, index = 3, label = Some 1\<rparr> \<and>
   filter (brushFilter d3_model (Some 130) (Some 130) rectA fourPoints) (embeddingData fourPoints) ! 1 =
     embeddingData fourPoints ! 3 \<and>
   brushFilter d3_model (Some 130) (Some 130) rectA fourPoints (embeddingData fourPoints ! 3)"
proof -
  note T = embedding_index_stable
    [of "[[0, 0], [10, 10], [5, 5], [2, 8]]" "[0, 1, 0, 1]" "[]" "[]" "[]" initialState
        "brushFilter d3_model (Some 130) (Some 130) rectA fourPoints"
        d3_model "Some 130" "Some 130" rectA, folded fourPoints_def]
  have m: "(3 :: nat) \<in> set (selectedIndices d3_model (Some 130) (Some 130) rectA fourPoints)"
    by (simp add: selected_A)
  have l: "(3 :: nat) < length [[0, 0], [10, 10], [5, 5], [2, 8 :: real]]"
    by simp
  have bf: "brushFilter d3_model (Some 130) (Some 130) rectA fourPoints (embeddingData fourPoints ! 3)"
    using T m by blast
  have ix: "map index (embeddingData fourPoints) = [0, 1, 2, 3]"
    using T by (simp add: upt_rec)
  have p3: "embeddingData fourPoints ! 3 = \<lparr>x = Some 2, y = Some 8, index = 3, label = Some 1\<rparr>"
    using T l by (simp add: js_index_def)
  have f: "filter (brushFilter d3_model (Some 130) (Some 130) rectA fourPoints) (embeddingData fourPoints) ! 1 =
     embeddingData fourPoints ! 3"
    by (simp add: fourPoints_data rectA_def fourPoints_brushFilter fourPoints_clusters orEmpty_def)
  show ?thesis
    using selected_A l ix p3 f bf by blast
qed


section \<open>The two clusters across runs\<close>

lemma clusters_toggle [simp]: "clusters (toggleHistorySelection i st) = clusters st"
  by (simp add: toggleHistorySelection_def Let_def)

lemma clusters_step:
  "clusters (apply_event lib e st) = clusters st \<or>
   (\<exists>s. clusters (apply_event lib e st) = \<lparr>cluster1 = Some s, cluster2 = None\<rparr>) \<or>
   clusters (apply_event lib e st) = \<lparr>cluster1 = None, cluster2 = None\<rparr> \<or>
   (\<exists>s. e = SelectCluster2 s \<and>
        clusters (apply_event lib e st) = (clusters st)\<lparr>cluster2 := Some s\<rparr>) \<or>
   (\<exists>w h sel. e = BrushEnd w h (Some sel) \<and> cluster1 (clusters st) \<noteq> None \<and>
        clusters (apply_event lib e st) =
          (clusters st)\<lparr>cluster2 := Some (selectedIndices lib w h sel st)\<rparr>) \<or>
   (e = ClearCluster1 \<and> clusters (apply_event lib e st) = (clusters st)\<lparr>cluster1 := None\<rparr>) \<or>
   clusters (apply_event lib e st) = (clusters st)\<lparr>cluster2 := None\<rparr>"
proof (cases e)
  case (BrushEnd w h sel)
  then show ?thesis
    using handleBrushEnd_cases [of lib w h sel st]
    by (auto simp: selectCluster1_def selectCluster2_def)
qed (simp_all add: store_defs)

lemma orEmpty_simps [simp]: "orEmpty None = []" "orEmpty (Some xs) = xs"
  by (simp_all add: orEmpty_def)

lemma disjoint_step:
  assumes "disjointClusters (clusters st)" and "select2Disjoint st e"
  shows "disjointClusters (clusters (apply_event lib e st))"
proof -
  have brush: "disjointClusters ((clusters st)\<lparr>cluster2 := Some (selectedIndices lib w h sel st)\<rparr>)"
    for w h sel
    using selectedIndices_unassigned [of lib w h sel st]
    by (auto simp: disjointClusters_def)
  have direct: "disjointClusters ((clusters st)\<lparr>cluster2 := Some s\<rparr>)" if "e = SelectCluster2 s" for s
    using assms(2) that by (auto simp: disjointClusters_def select2Disjoint_def)
  have one: "disjointClusters \<lparr>cluster1 = Some s, cluster2 = None\<rparr>" for s
    by (simp add: disjointClusters_def)
  have none: "disjointClusters \<lparr>cluster1 = None, cluster2 = None\<rparr>"
    by (simp add: disjointClusters_def)
  have clear1: "disjointClusters ((clusters st)\<lparr>cluster1 := None\<rparr>)"
    by (simp add: disjointClusters_def)
  have clear2: "disjointClusters ((clusters st)\<lparr>cluster2 := None\<rparr>)"
    by (simp add: disjointClusters_def)
  show ?thesis
    using clusters_step [of lib e st] assms(1) brush direct one none clear1 clear2
    by (elim disjE exE conjE) simp_all
qed

lemma implied_step:
  assumes "cluster2 (clusters st) \<noteq> None \<longrightarrow> cluster1 (clusters st) \<noteq> None"
    and "cluster1First st e"
  shows "cluster2 (clusters (apply_event lib e st)) \<noteq> None \<longrightarrow>
         cluster1 (clusters (apply_event lib e st)) \<noteq> None"
proof -
  have direct: "cluster1 (clusters st) \<noteq> None" if "e = SelectCluster2 s" for s
    using assms(2) that by (simp add: cluster1First_def)
  have clear: "cluster2 (clusters st) = None" if "e = ClearCluster1"
    using assms(2) that by (simp add: cluster1First_def)
  show ?thesis
    using clusters_step [of lib e st] assms(1) direct clear by auto
qed

lemma reachable_allowedRun:
  "reachable lib allowed st \<Longrightarrow> allowedRun lib allowed es st \<Longrightarrow>
   reachable lib allowed (run lib es st)"
  unfolding run_def
  by (induction es arbitrary: st) (simp_all add: reachable_step)

lemma run_brushThenSelect2:
  "run d3_model brushThenSelect2 initialState = selectCluster2 [1] (brush rectA fourPoints)"
  by (simp add: run_def brushThenSelect2_def brush_def fourPoints_def)

lemma brushThenSelect2_clusters:
  "clusters (run d3_model brushThenSelect2 initialState) =
     \<lparr>cluster1 = Some [0, 3], cluster2 = Some [1]\<rparr>"
  by (simp add: run_brushThenSelect2 selectCluster2_def brushA_clusters)

lemma brushThenSelect2_allowed:
  "allowedRun d3_model select2Disjoint brushThenSelect2 initialState"
  "allowedRun d3_model cluster1First brushThenSelect2 initialState"
  using brushA_clusters
  by (simp_all add: brushThenSelect2_def select2Disjoint_def cluster1First_def
        brush_def fourPoints_def)

lemma clearThenSelect_allowed:
  "clusters st = \<lparr>cluster1 = Some a, cluster2 = Some b\<rparr> \<Longrightarrow>
   allowedRun lib cluster1First clearThenSelect st"
  by (simp add: clearThenSelect_def cluster1First_def clearCluster1_def clearCluster2_def
        selectCluster1_def)

lemma clearThenSelect_clusters:
  "clusters (run lib clearThenSelect st) = \<lparr>cluster1 = Some [2], cluster2 = Some [3]\<rparr>"
  by (simp add: run_def clearThenSelect_def clearCluster1_def clearCluster2_def
        selectCluster1_def selectCluster2_def)

text \<open>
  Claim C1, as amended. In every state reached by a run of \<^verbatim>\<open>handleBrushEnd\<close> and the
  operations of the store in which each direct call of \<^verbatim>\<open>selectCluster2\<close> passes indices
  that are not in cluster1, cluster1 and cluster2 share no index. Every other event,
  \<^verbatim>\<open>selectCluster1\<close> with any indices among them, is allowed in every state.
\<close>

theorem clusters_disjoint_reachable:
  "reachable lib select2Disjoint st \<Longrightarrow> disjointClusters (clusters st)"
proof (induction rule: reachable.induct)
  case reachable_init
  show ?case by (simp add: initialState_def disjointClusters_def)
next
  case (reachable_step st e)
  then show ?case by (simp add: disjoint_step)
qed

theorem clusters_disjoint_reachable_witness:
  "reachable d3_model select2Disjoint (run d3_model brushThenSelect2 initialState) \<and>
   clusters (run d3_model brushThenSelect2 initialState) =
     \<lparr>cluster1 = Some [0, 3], cluster2 = Some [1]\<rparr> \<and>
   disjointClusters (clusters (run d3_model brushThenSelect2 initialState))"
proof -
  have r: "reachable d3_model select2Disjoint (run d3_model brushThenSelect2 initialState)"
    using reachable_init brushThenSelect2_allowed(1) by (rule reachable_allowedRun)
  show ?thesis
    using r clusters_disjoint_reachable [OF r] brushThenSelect2_clusters by blast
qed

text \<open>
  Claim C1 as stated fails: the store takes \<^verbatim>\<open>selectCluster1([1])\<close> and then
  \<^verbatim>\<open>selectCluster2([1])\<close>, and index 1 is in both clusters.
\<close>

theorem clusters_overlap_counterexample:
  "reachable d3_model anyEvent (run d3_model [SelectCluster1 [1], SelectCluster2 [1]] initialState) \<and>
   \<not> disjointClusters (clusters (run d3_model [SelectCluster1 [1], SelectCluster2 [1]] initialState))"
proof
  show "reachable d3_model anyEvent (run d3_model [SelectCluster1 [1], SelectCluster2 [1]] initialState)"
    by (rule reachable_run) (rule reachable_init)
  show "\<not> disjointClusters (clusters (run d3_model [SelectCluster1 [1], SelectCluster2 [1]] initialState))"
    by (simp add: run_def selectCluster1_def selectCluster2_def disjointClusters_def)
qed

text \<open>
  Claim C10, as amended. Every call of \<^verbatim>\<open>selectCluster1\<close> unsets cluster2. In every state
  reached by a run of \<^verbatim>\<open>handleBrushEnd\<close> and the operations of the store in which each
  direct call of \<^verbatim>\<open>selectCluster2\<close> is made while cluster1 is set and each call of
  \<^verbatim>\<open>clearCluster1\<close> is made while cluster2 is unset, cluster2 is set only if cluster1 is
  set.
\<close>

theorem cluster2_implies_cluster1:
  "cluster2 (clusters (selectCluster1 S st)) = None \<and>
   (reachable lib cluster1First st' \<longrightarrow>
      (cluster2 (clusters st') \<noteq> None \<longrightarrow> cluster1 (clusters st') \<noteq> None))"
proof (intro conjI impI)
  show "cluster2 (clusters (selectCluster1 S st)) = None"
    by (simp add: selectCluster1_def)
next
  assume "reachable lib cluster1First st'"
  then have "cluster2 (clusters st') \<noteq> None \<longrightarrow> cluster1 (clusters st') \<noteq> None"
  proof (induction rule: reachable.induct)
    case reachable_init
    show ?case by (simp add: initialState_def)
  next
    case (reachable_step st e)
    then show ?case using implied_step [of st e lib] by blast
  qed
  moreover assume "cluster2 (clusters st') \<noteq> None"
  ultimately show "cluster1 (clusters st') \<noteq> None" by blast
qed

theorem cluster2_implies_cluster1_witness:
  "cluster2 (clusters (selectCluster1 [7] initialState)) = None \<and>
   reachable d3_model cluster1First
     (run d3_model clearThenSelect (run d3_model brushThenSelect2 initialState)) \<and>
   cluster2 (clusters
     (run d3_model clearThenSelect (run d3_model brushThenSelect2 initialState))) = Some [3] \<and>
   cluster1 (clusters
     (run d3_model clearThenSelect (run d3_model brushThenSelect2 initialState))) \<noteq> None"
proof -
  let ?s1 = "run d3_model brushThenSelect2 initialState"
  let ?s2 = "run d3_model clearThenSelect ?s1"
  have r1: "reachable d3_model cluster1First ?s1"
    using reachable_init brushThenSelect2_allowed(2) by (rule reachable_allowedRun)
  have r2: "reachable d3_model cluster1First ?s2"
    using r1 clearThenSelect_allowed [OF brushThenSelect2_clusters]
    by (rule reachable_allowedRun)
  have c2: "cluster2 (clusters ?s2) = Some [3]"
    by (simp add: clearThenSelect_clusters)
  note T = cluster2_implies_cluster1 [of "[7]" initialState d3_model ?s2]
  show ?thesis
    using T r2 c2 by auto
qed

text \<open>
  Claim C10 as stated fails in two ways: \<^verbatim>\<open>selectCluster2([5])\<close> on the initial state sets
  cluster2 and leaves cluster1 unset; and after \<^verbatim>\<open>selectCluster1([0])\<close> and
  \<^verbatim>\<open>selectCluster2([1])\<close>, \<^verbatim>\<open>clearCluster1\<close> unsets cluster1 and leaves cluster2 set.
\<close>

theorem cluster2_without_cluster1_counterexample:
  "reachable d3_model anyEvent (run d3_model [SelectCluster2 [5]] initialState) \<and>
   cluster2 (clusters (run d3_model [SelectCluster2 [5]] initialState)) = Some [5] \<and>
   cluster1 (clusters (run d3_model [SelectCluster2 [5]] initialState)) = None \<and>
   reachable d3_model anyEvent
     (run d3_model [SelectCluster1 [0], SelectCluster2 [1], ClearCluster1] initialState) \<and>
   cluster2 (clusters
     (run d3_model [SelectCluster1 [0], SelectCluster2 [1], ClearCluster1] initialState)) =
     Some [1] \<and>
   cluster1 (clusters
     (run d3_model [SelectCluster1 [0], SelectCluster2 [1], ClearCluster1] initialState)) = None"
proof (intro conjI)
  show "reachable d3_model anyEvent (run d3_model [SelectCluster2 [5]] initialState)"
    by (rule reachable_run) (rule reachable_init)
  show "reachable d3_model anyEvent
     (run d3_model [SelectCluster1 [0], SelectCluster2 [1], ClearCluster1] initialState)"
    by (rule reachable_run) (rule reachable_init)
qed (simp_all add: run_def selectCluster1_def selectCluster2_def clearCluster1_def
       initialState_def)


section \<open>The summary of a saved analysis\<close>

lemma insort_key_map:
  "insort_key k (g a) (map g xs) = map g (insort_key (\<lambda>v. k (g v)) a xs)"
  by (induction xs) simp_all

lemma sort_key_map:
  "sort_key k (map g xs) = map g (sort_key (\<lambda>v. k (g v)) xs)"
  by (induction xs) (simp_all add: insort_key_map)

lemma set_firstSeen [simp]: "set (firstSeen xs) = set xs"
  by (induction xs) auto

lemma distinct_firstSeen [simp]: "distinct (firstSeen xs)"
  by (induction xs) auto

lemma setProperty_tabulate:
  "distinct ks \<Longrightarrow>
   setProperty (map (\<lambda>v. (v, c v)) ks) n val =
     map (\<lambda>v. (v, (c(n := val)) v)) (if n \<in> set ks then ks else ks @ [n])"
  by (induction ks) auto

lemma map_of_tabulate:
  "map_of (map (\<lambda>v. (v, c v)) ks) n = (if n \<in> set ks then Some (c n) else None)"
  by (induction ks) auto

lemma countVariable_tabulate:
  assumes "distinct ks" and "\<forall>v. v \<notin> set ks \<longrightarrow> c v = 0"
  shows "countVariable (map (\<lambda>v. (v, c v)) ks) f =
     map (\<lambda>v. (v, (c(variable f := c (variable f) + 1)) v))
         (if variable f \<in> set ks then ks else ks @ [variable f])"
proof -
  have "(case map_of (map (\<lambda>v. (v, c v)) ks) (variable f) of None \<Rightarrow> 0 | Some k \<Rightarrow> k) =
        c (variable f)"
    using assms(2) by (simp add: map_of_tabulate)
  then show ?thesis
    unfolding countVariable_def using assms(1) by (simp only: setProperty_tabulate)
qed

lemma foldl_countVariable:
  "distinct ks \<Longrightarrow> \<forall>v. v \<notin> set ks \<longrightarrow> c v = 0 \<Longrightarrow>
   foldl countVariable (map (\<lambda>v. (v, c v)) ks) fs =
     map (\<lambda>v. (v, c v + count_list (map variable fs) v))
         (ks @ filter (\<lambda>v. v \<notin> set ks) (firstSeen (map variable fs)))"
proof (induction fs arbitrary: ks c)
  case Nil
  then show ?case by simp
next
  case (Cons f fs)
  let ?n = "variable f"
  let ?c = "c(?n := c ?n + 1)"
  let ?ks = "if ?n \<in> set ks then ks else ks @ [?n]"
  have d: "distinct ?ks" using Cons.prems(1) by simp
  have z: "\<forall>v. v \<notin> set ?ks \<longrightarrow> ?c v = 0" using Cons.prems(2) by auto
  have step: "foldl countVariable (map (\<lambda>v. (v, c v)) ks) (f # fs) =
              foldl countVariable (map (\<lambda>v. (v, ?c v)) ?ks) fs"
    using countVariable_tabulate [OF Cons.prems] by simp
  have ih: "foldl countVariable (map (\<lambda>v. (v, ?c v)) ?ks) fs =
     map (\<lambda>v. (v, ?c v + count_list (map variable fs) v))
         (?ks @ filter (\<lambda>v. v \<notin> set ?ks) (firstSeen (map variable fs)))"
    using d z by (rule Cons.IH)
  have cnt: "(\<lambda>v. (v, ?c v + count_list (map variable fs) v)) =
             (\<lambda>v. (v, c v + count_list (map variable (f # fs)) v))"
    by (auto simp: fun_eq_iff)
  have keys: "?ks @ filter (\<lambda>v. v \<notin> set ?ks) (firstSeen (map variable fs)) =
              ks @ filter (\<lambda>v. v \<notin> set ks) (firstSeen (map variable (f # fs)))"
  proof (cases "?n \<in> set ks")
    case True
    then have "filter (\<lambda>v. v \<notin> set ks) (filter (\<lambda>u. u \<noteq> ?n) (firstSeen (map variable fs))) =
               filter (\<lambda>v. v \<notin> set ks) (firstSeen (map variable fs))"
      by (auto intro: filter_cong)
    with True show ?thesis by simp
  next
    case False
    have "filter (\<lambda>v. v \<notin> set (ks @ [?n])) (firstSeen (map variable fs)) =
          filter (\<lambda>v. v \<notin> set ks) (filter (\<lambda>u. u \<noteq> ?n) (firstSeen (map variable fs)))"
      by (auto intro: filter_cong)
    with False show ?thesis by simp
  qed
  show ?case
    unfolding step ih cnt keys ..
qed

lemma variableCounts_tabulate:
  "variableCounts fs =
     map (\<lambda>v. (v, count_list (map variable fs) v)) (firstSeen (map variable fs))"
  using foldl_countVariable [of "[]" "\<lambda>_. 0" fs]
  by (simp add: variableCounts_def)

lemma objectEntries_ordinary:
  "\<forall>p \<in> set obj. \<not> isArrayIndex (fst p) \<Longrightarrow> objectEntries obj = obj"
proof -
  assume h: "\<forall>p \<in> set obj. \<not> isArrayIndex (fst p)"
  then have "filter (\<lambda>p. isArrayIndex (fst p)) obj = []"
    by (simp add: filter_empty_conv)
  moreover have "filter (\<lambda>p. \<not> isArrayIndex (fst p)) obj = obj"
    using h by (simp add: filter_id_conv)
  ultimately show ?thesis by (simp add: objectEntries_def)
qed

lemma sortedVars_ordinary:
  assumes "\<forall>f \<in> set fs. \<not> isArrayIndex (variable f)"
  shows "sortedVars fs =
     sort_key (\<lambda>v. - int (count_list (map variable fs) v)) (firstSeen (map variable fs))"
proof -
  let ?names = "map variable fs"
  let ?tab = "map (\<lambda>v. (v, count_list ?names v)) (firstSeen ?names)"
  have "\<forall>p \<in> set ?tab. \<not> isArrayIndex (fst p)"
    using assms by auto
  then have "objectEntries (variableCounts fs) = ?tab"
    by (simp only: variableCounts_tabulate objectEntries_ordinary)
  then have "sortedVars fs = map fst (sort_key (\<lambda>p. - int (snd p)) ?tab)"
    by (simp add: sortedVars_def)
  also have "\<dots> = map fst (map (\<lambda>v. (v, count_list ?names v))
                 (sort_key (\<lambda>v. - int (count_list ?names v)) (firstSeen ?names)))"
    by (simp add: sort_key_map)
  also have "\<dots> = sort_key (\<lambda>v. - int (count_list ?names v)) (firstSeen ?names)"
    by (simp add: comp_def)
  finally show ?thesis .
qed

lemma save_snapshot:
  "cluster1 (clusters st) = Some c1 \<Longrightarrow> cluster2 (clusters st) = Some c2 \<Longrightarrow>
   topFeatures st = Some fs \<Longrightarrow> DashboardState.interpretation' st = Some secs \<Longrightarrow>
   hd (analysisHistory (saveCurrentAnalysis i t st)) = newAnalysis i t c1 c2 fs secs"
  by (simp add: save_populated take_Cons')

lemmas index_defs = isArrayIndex_def isDigit_def decimalValue_def

lemma fourFeatures_ordinary: "\<forall>f \<in> set fourFeatures. ordinaryName (variable f)"
  by (simp add: fourFeatures_def feature_def ordinaryName_def objectPrototypeNames_def index_defs)

lemma fourFeatures_spec: "spec_top_variables fourFeatures = [''AirIn'', ''CPU'', ''Water'']"
  by (simp add: fourFeatures_def spec_top_variables_def feature_def)

text \<open>
  Claim C7, as amended. When \<^verbatim>\<open>saveCurrentAnalysis\<close> creates a snapshot, the snapshot at
  the head of the history has a summary in which \<open>significant_count\<close> is the number of
  topFeatures whose nested p-value is below 0.05, \<open>top_racks\<close> is the rack of the first five
  topFeatures in their order, and \<open>top_variables\<close> has at most three names. When no variable
  name is an array index (such as \<^verbatim>\<open>"1"\<close>) or a name inherited from
  \<^verbatim>\<open>Object.prototype\<close>, \<open>top_variables\<close> is the specification's list: the names by
  descending number of occurrences, ties in the order of first occurrence, cut to three.
\<close>

theorem saved_summary:
  "cluster1 (clusters st) = Some c1 \<and> cluster2 (clusters st) = Some c2 \<and>
   topFeatures st = Some fs \<and> DashboardState.interpretation' st = Some secs \<longrightarrow>
   significant_count (summary (hd (analysisHistory (saveCurrentAnalysis i t st)))) =
     length (filter (\<lambda>f. js_lt (p_value (statistical_result f)) (Some 0.05)) fs) \<and>
   top_racks (summary (hd (analysisHistory (saveCurrentAnalysis i t st)))) =
     map rack (take 5 fs) \<and>
   length (top_variables (summary (hd (analysisHistory (saveCurrentAnalysis i t st))))) \<le> 3 \<and>
   ((\<forall>f \<in> set fs. ordinaryName (variable f)) \<longrightarrow>
      top_variables (summary (hd (analysisHistory (saveCurrentAnalysis i t st)))) =
        spec_top_variables fs)"
proof (intro impI)
  assume h: "cluster1 (clusters st) = Some c1 \<and> cluster2 (clusters st) = Some c2 \<and>
   topFeatures st = Some fs \<and> DashboardState.interpretation' st = Some secs"
  then have snap: "hd (analysisHistory (saveCurrentAnalysis i t st)) =
      newAnalysis i t c1 c2 fs secs"
    by (simp add: save_snapshot)
  have tv: "top_variables (summary (newAnalysis i t c1 c2 fs secs)) = spec_top_variables fs"
    if "\<forall>f \<in> set fs. ordinaryName (variable f)"
  proof -
    from that have "\<forall>f \<in> set fs. \<not> isArrayIndex (variable f)"
      by (simp add: ordinaryName_def)
    then show ?thesis
      by (simp add: newAnalysis_def spec_top_variables_def sortedVars_ordinary Let_def)
  qed
  show "significant_count (summary (hd (analysisHistory (saveCurrentAnalysis i t st)))) =
     length (filter (\<lambda>f. js_lt (p_value (statistical_result f)) (Some 0.05)) fs) \<and>
   top_racks (summary (hd (analysisHistory (saveCurrentAnalysis i t st)))) =
     map rack (take 5 fs) \<and>
   length (top_variables (summary (hd (analysisHistory (saveCurrentAnalysis i t st))))) \<le> 3 \<and>
   ((\<forall>f \<in> set fs. ordinaryName (variable f)) \<longrightarrow>
      top_variables (summary (hd (analysisHistory (saveCurrentAnalysis i t st)))) =
        spec_top_variables fs)"
    unfolding snap using tv
    by (simp add: newAnalysis_def significantFeatures_def racks_def)
qed

theorem saved_summary_witness:
  "cluster1 (clusters (analysed fourFeatures)) = Some [0] \<and>
   cluster2 (clusters (analysed fourFeatures)) = Some [1] \<and>
   topFeatures (analysed fourFeatures) = Some fourFeatures \<and>
   DashboardState.interpretation' (analysed fourFeatures) = Some [] \<and>
   significant_count (summary (hd (analysisHistory
     (saveCurrentAnalysis ''id'' 0 (analysed fourFeatures))))) = 2 \<and>
   top_racks (summary (hd (analysisHistory
     (saveCurrentAnalysis ''id'' 0 (analysed fourFeatures))))) =
     [''A01'', ''A02'', ''A03'', ''A04''] \<and>
   top_variables (summary (hd (analysisHistory
     (saveCurrentAnalysis ''id'' 0 (analysed fourFeatures))))) = [''AirIn'', ''CPU'', ''Water'']"
proof -
  note T = saved_summary [of "analysed fourFeatures" "[0]" "[1]" fourFeatures "[]" "''id''" 0]
  have sc: "length (filter (\<lambda>f. js_lt (p_value (statistical_result f)) (Some 0.05)) fourFeatures) = 2"
    by (simp add: fourFeatures_def feature_def js_lt_def)
  have tr: "map rack (take 5 fourFeatures) = [''A01'', ''A02'', ''A03'', ''A04'']"
    by (simp add: fourFeatures_def feature_def)
  show ?thesis
    using T analysed_fields [of fourFeatures] fourFeatures_ordinary fourFeatures_spec sc tr
    by simp
qed

text \<open>
  Claim C7 as stated fails: of two features with the variables \<^verbatim>\<open>"2"\<close> and \<^verbatim>\<open>"1"\<close>, in
  that order and each occurring once, the code lists \<^verbatim>\<open>"1"\<close> first, since
  \<^verbatim>\<open>Object.entries\<close> enumerates array-index keys in ascending numeric order; the order of
  first occurrence is \<^verbatim>\<open>"2"\<close>, \<^verbatim>\<open>"1"\<close>.
\<close>

theorem saved_summary_counterexample:
  "top_variables (summary (hd (analysisHistory
     (saveCurrentAnalysis ''id'' 0 (analysed numeralNames))))) = [''1'', ''2''] \<and>
   spec_top_variables numeralNames = [''2'', ''1'']"
proof
  have "sortedVars numeralNames = [''1'', ''2'']"
    by (simp add: numeralNames_def sortedVars_def variableCounts_def countVariable_def
        feature_def objectEntries_def index_defs)
  then show "top_variables (summary (hd (analysisHistory
     (saveCurrentAnalysis ''id'' 0 (analysed numeralNames))))) = [''1'', ''2'']"
    by (simp add: save_snapshot [OF analysed_fields(1-4)] newAnalysis_def)
  show "spec_top_variables numeralNames = [''2'', ''1'']"
    by (simp add: numeralNames_def spec_top_variables_def feature_def)
qed

end
